theory Spec2Isabelle
  imports Main "HOL-Library.Word"
begin

section \<open>Bytes and UTF-8\<close>

text \<open>
  A Go \<^verbatim>\<open>string\<close> and a \<^verbatim>\<open>[]byte\<close> are sequences of bytes: here \<^typ>\<open>string\<close>,
  whose characters are the 8-bit values. \<open>byte c\<close> reads a character as a number.
\<close>

definition byte :: "char \<Rightarrow> nat" where
  "byte c = of_char c"

definition isSpace :: "char \<Rightarrow> bool" where
  "isSpace c = (byte c = 0x20 \<or> byte c = 0x09 \<or> byte c = 0x0D \<or> byte c = 0x0A)"

definition isDigit :: "char \<Rightarrow> bool" where
  "isDigit c = (0x30 \<le> byte c \<and> byte c \<le> 0x39)"

definition isHex :: "char \<Rightarrow> bool" where
  "isHex c = (isDigit c \<or> (0x61 \<le> byte c \<and> byte c \<le> 0x66) \<or> (0x41 \<le> byte c \<and> byte c \<le> 0x46))"

definition RuneError :: nat where
  "RuneError = 0xFFFD"

text \<open>
  \<^verbatim>\<open>utf8.DecodeRune\<close>: the first rune of a byte sequence and its width. An invalid or
  truncated encoding gives \<open>(RuneError, 1)\<close>, the empty sequence \<open>(RuneError, 0)\<close>.
\<close>

definition DecodeRune :: "string \<Rightarrow> nat \<times> nat" where
  "DecodeRune s =
     (case s of
        [] \<Rightarrow> (RuneError, 0)
      | c0 # _ \<Rightarrow>
          let b0 = byte c0 in
          if b0 < 0x80 then (b0, 1)
          else if b0 < 0xC2 \<or> 0xF4 < b0 then (RuneError, 1)
          else
            let sz = (if b0 < 0xE0 then 2 else if b0 < 0xF0 then 3 else (4::nat));
                lo = (if b0 = 0xE0 then 0xA0 else if b0 = 0xF0 then 0x90 else 0x80);
                hi = (if b0 = 0xED then 0x9F else if b0 = 0xF4 then 0x8F else 0xBF)
            in
              if length s < sz then (RuneError, 1)
              else
                let b1 = byte (s ! 1) in
                if b1 < lo \<or> hi < b1 then (RuneError, 1)
                else if sz \<le> 2 then ((b0 mod 0x20) * 0x40 + b1 mod 0x40, 2)
                else
                  let b2 = byte (s ! 2) in
                  if b2 < 0x80 \<or> 0xBF < b2 then (RuneError, 1)
                  else if sz \<le> 3 then
                    ((b0 mod 0x10) * 0x1000 + (b1 mod 0x40) * 0x40 + b2 mod 0x40, 3)
                  else
                    let b3 = byte (s ! 3) in
                    if b3 < 0x80 \<or> 0xBF < b3 then (RuneError, 1)
                    else ((b0 mod 0x08) * 0x40000 + (b1 mod 0x40) * 0x1000
                            + (b2 mod 0x40) * 0x40 + b3 mod 0x40, 4))"

text \<open>\<^verbatim>\<open>utf8.EncodeRune\<close>: surrogates and values beyond U+10FFFF are written as U+FFFD.\<close>

definition EncodeRune :: "nat \<Rightarrow> string" where
  "EncodeRune r =
     (if r \<le> 0x7F then [char_of r]
      else if r \<le> 0x7FF then [char_of (0xC0 + r div 0x40), char_of (0x80 + r mod 0x40)]
      else if 0x10FFFF < r \<or> (0xD800 \<le> r \<and> r \<le> 0xDFFF) then
        [char_of (0xEF::nat), char_of (0xBF::nat), char_of (0xBD::nat)]
      else if r \<le> 0xFFFF then
        [char_of (0xE0 + r div 0x1000), char_of (0x80 + (r div 0x40) mod 0x40),
         char_of (0x80 + r mod 0x40)]
      else
        [char_of (0xF0 + r div 0x40000), char_of (0x80 + (r div 0x1000) mod 0x40),
         char_of (0x80 + (r div 0x40) mod 0x40), char_of (0x80 + r mod 0x40)])"

section \<open>JSON texts: the scanner of \<^verbatim>\<open>encoding/json\<close>\<close>

text \<open>
  The repository decodes and encodes with Go's \<^verbatim>\<open>encoding/json\<close>. Its behaviour is
  modelled here from the package's documentation and source: a byte-by-byte scanner that
  accepts the JSON grammar (a state and a stack of open arrays and objects), the unquoting of
  string literals, and the storing of JSON values into typed Go values.

  A number keeps its literal: whether it fits the destination is decided when it is stored.
\<close>

datatype json =
    JNull
  | JBool bool
  | JNumber string
  | JString string
  | JArray "json list"
  | JObject "(string \<times> json) list"

text \<open>
  An open array with its elements so far; an open object with its members so far, waiting
  for a key (\<open>FKey\<close>), for the colon after a key (\<open>FColon\<close>) or for the value of a key
  (\<open>FValue\<close>). Elements and members are kept in reverse.
\<close>

datatype frame =
    FArray "json list"
  | FKey "(string \<times> json) list"
  | FColon "(string \<times> json) list" string
  | FValue "(string \<times> json) list" string

datatype numstate = Neg | N0 | N1 | Dot | Dot0 | E | ESign | E0

datatype lex =
    BeginValue
  | BeginValueOrEmpty
  | BeginStringOrEmpty
  | BeginString
  | EndValue
  | EndTop json
  | InString string
  | InStringEsc string
  | InStringEscU string nat
  | Num numstate string
  | Lit string json

datatype step_result =
    Continue lex "frame list"
  | DoneHere json
  | DoneBefore json
  | Invalid

definition maxNestingDepth :: nat where
  "maxNestingDepth = 10000"

subsection \<open>Unquoting a string literal\<close>

definition hexval :: "char \<Rightarrow> nat" where
  "hexval c =
     (if isDigit c then byte c - 0x30
      else if 0x61 \<le> byte c \<and> byte c \<le> 0x66 then byte c - 0x61 + 10
      else byte c - 0x41 + 10)"

text \<open>\<^verbatim>\<open>getu4\<close>: the value of a leading \<^verbatim>\<open>\uXXXX\<close>, if the text starts with one.\<close>

definition getu4 :: "string \<Rightarrow> nat option" where
  "getu4 s =
     (case s of
        b # u # h1 # h2 # h3 # h4 # _ \<Rightarrow>
          if byte b = 0x5C \<and> byte u = 0x75 \<and> isHex h1 \<and> isHex h2 \<and> isHex h3 \<and> isHex h4
          then Some (((hexval h1 * 16 + hexval h2) * 16 + hexval h3) * 16 + hexval h4)
          else None
      | _ \<Rightarrow> None)"

definition IsSurrogate :: "nat \<Rightarrow> bool" where
  "IsSurrogate r = (0xD800 \<le> r \<and> r < 0xE000)"

text \<open>\<^verbatim>\<open>utf16.DecodeRune\<close> of a pair, when the pair is a valid surrogate pair.\<close>

definition utf16_DecodeRune :: "nat \<Rightarrow> nat option \<Rightarrow> nat option" where
  "utf16_DecodeRune r1 r2o =
     (case r2o of
        None \<Rightarrow> None
      | Some r2 \<Rightarrow>
          if 0xD800 \<le> r1 \<and> r1 < 0xDC00 \<and> 0xDC00 \<le> r2 \<and> r2 < 0xE000
          then Some ((r1 - 0xD800) * 0x400 + (r2 - 0xDC00) + 0x10000)
          else None)"

text \<open>
  \<^verbatim>\<open>unquote\<close> on the text between the quotes of a literal the scanner has accepted:
  escapes are replaced, a surrogate pair becomes one rune, a lone surrogate becomes U+FFFD,
  and bytes that are not UTF-8 are coerced to U+FFFD.
\<close>

function unquote :: "string \<Rightarrow> string" where
  "unquote [] = []"
| "unquote (c # cs) =
     (if byte c = 0x5C then
        (case cs of
           [] \<Rightarrow> []
         | e # es \<Rightarrow>
             if byte e = 0x75 then
               (case getu4 (c # cs) of
                  None \<Rightarrow> []
                | Some rr \<Rightarrow>
                    if IsSurrogate rr then
                      (case utf16_DecodeRune rr (getu4 (drop 5 cs)) of
                         Some dec \<Rightarrow> EncodeRune dec @ unquote (drop 11 cs)
                       | None \<Rightarrow> EncodeRune RuneError @ unquote (drop 5 cs))
                    else EncodeRune rr @ unquote (drop 5 cs))
             else if byte e = 0x62 then char_of (0x08::nat) # unquote es
             else if byte e = 0x66 then char_of (0x0C::nat) # unquote es
             else if byte e = 0x6E then char_of (0x0A::nat) # unquote es
             else if byte e = 0x72 then char_of (0x0D::nat) # unquote es
             else if byte e = 0x74 then char_of (0x09::nat) # unquote es
             else e # unquote es)
      else if byte c < 0x80 then c # unquote cs
      else
        (let (rr, size) = DecodeRune (c # cs)
         in EncodeRune rr @ unquote (drop (size - 1) cs)))"
  by pat_completeness auto
termination
  by (relation "measure length") auto

subsection \<open>One step of the scanner\<close>

text \<open>A value is complete: it goes to the innermost open array or object.\<close>

fun end_value :: "json \<Rightarrow> frame list \<Rightarrow> step_result" where
  "end_value v [] = Continue (EndTop v) []"
| "end_value v (FArray xs # st) = Continue EndValue (FArray (v # xs) # st)"
| "end_value (JString k) (FKey kvs # st) = Continue EndValue (FColon kvs k # st)"
| "end_value v (FKey kvs # st) = Invalid"
| "end_value v (FValue kvs k # st) = Continue EndValue (FKey ((k, v) # kvs) # st)"
| "end_value v (FColon kvs k # st) = Invalid"

text \<open>An array or object is closed: at the top level the text of the value ends here.\<close>

definition close_value :: "json \<Rightarrow> frame list \<Rightarrow> step_result" where
  "close_value v st = (if st = [] then DoneHere v else end_value v st)"

definition pushParseState :: "frame \<Rightarrow> lex \<Rightarrow> frame list \<Rightarrow> step_result" where
  "pushParseState f l st =
     (if length (f # st) \<le> maxNestingDepth then Continue l (f # st) else Invalid)"

definition stateBeginValue :: "frame list \<Rightarrow> char \<Rightarrow> step_result" where
  "stateBeginValue st c =
     (if isSpace c then Continue BeginValue st
      else if c = CHR ''{'' then pushParseState (FKey []) BeginStringOrEmpty st
      else if c = CHR ''['' then pushParseState (FArray []) BeginValueOrEmpty st
      else if byte c = 0x22 then Continue (InString []) st
      else if c = CHR ''-'' then Continue (Num Neg [c]) st
      else if c = CHR ''0'' then Continue (Num N0 [c]) st
      else if c = CHR ''t'' then Continue (Lit ''rue'' (JBool True)) st
      else if c = CHR ''f'' then Continue (Lit ''alse'' (JBool False)) st
      else if c = CHR ''n'' then Continue (Lit ''ull'' JNull) st
      else if isDigit c then Continue (Num N1 [c]) st
      else Invalid)"

definition stateBeginString :: "frame list \<Rightarrow> char \<Rightarrow> step_result" where
  "stateBeginString st c =
     (if isSpace c then Continue BeginString st
      else if byte c = 0x22 then Continue (InString []) st
      else Invalid)"

definition stateEndValue :: "frame list \<Rightarrow> char \<Rightarrow> step_result" where
  "stateEndValue st c =
     (if isSpace c then Continue EndValue st
      else
        (case st of
           [] \<Rightarrow> Invalid
         | FArray xs # st' \<Rightarrow>
             if c = CHR '','' then Continue BeginValue st
             else if c = CHR '']'' then close_value (JArray (rev xs)) st'
             else Invalid
         | FColon kvs k # st' \<Rightarrow>
             if c = CHR '':'' then Continue BeginValue (FValue kvs k # st') else Invalid
         | FKey kvs # st' \<Rightarrow>
             if c = CHR '','' then Continue BeginString st
             else if c = CHR ''}'' then close_value (JObject (rev kvs)) st'
             else Invalid
         | FValue kvs k # st' \<Rightarrow> Invalid))"

text \<open>A number ends before \<open>c\<close>: at the top level \<open>c\<close> is not consumed.\<close>

definition end_number :: "string \<Rightarrow> frame list \<Rightarrow> char \<Rightarrow> step_result" where
  "end_number lit st c =
     (if st = [] then DoneBefore (JNumber lit)
      else
        (case end_value (JNumber lit) st of
           Continue l st' \<Rightarrow> stateEndValue st' c
         | r \<Rightarrow> r))"

definition stateNum :: "numstate \<Rightarrow> string \<Rightarrow> frame list \<Rightarrow> char \<Rightarrow> step_result" where
  "stateNum n lit st c =
     (case n of
        Neg \<Rightarrow>
          if c = CHR ''0'' then Continue (Num N0 (lit @ [c])) st
          else if isDigit c then Continue (Num N1 (lit @ [c])) st
          else Invalid
      | N1 \<Rightarrow>
          if isDigit c then Continue (Num N1 (lit @ [c])) st
          else if c = CHR ''.'' then Continue (Num Dot (lit @ [c])) st
          else if c = CHR ''e'' \<or> c = CHR ''E'' then Continue (Num E (lit @ [c])) st
          else end_number lit st c
      | N0 \<Rightarrow>
          if c = CHR ''.'' then Continue (Num Dot (lit @ [c])) st
          else if c = CHR ''e'' \<or> c = CHR ''E'' then Continue (Num E (lit @ [c])) st
          else end_number lit st c
      | Dot \<Rightarrow>
          if isDigit c then Continue (Num Dot0 (lit @ [c])) st else Invalid
      | Dot0 \<Rightarrow>
          if isDigit c then Continue (Num Dot0 (lit @ [c])) st
          else if c = CHR ''e'' \<or> c = CHR ''E'' then Continue (Num E (lit @ [c])) st
          else end_number lit st c
      | E \<Rightarrow>
          if c = CHR ''+'' \<or> c = CHR ''-'' then Continue (Num ESign (lit @ [c])) st
          else if isDigit c then Continue (Num E0 (lit @ [c])) st
          else Invalid
      | ESign \<Rightarrow>
          if isDigit c then Continue (Num E0 (lit @ [c])) st else Invalid
      | E0 \<Rightarrow>
          if isDigit c then Continue (Num E0 (lit @ [c])) st
          else end_number lit st c)"

definition step :: "lex \<Rightarrow> frame list \<Rightarrow> char \<Rightarrow> step_result" where
  "step l st c =
     (case l of
        BeginValue \<Rightarrow> stateBeginValue st c
      | BeginValueOrEmpty \<Rightarrow>
          if isSpace c then Continue BeginValueOrEmpty st
          else if c = CHR '']'' then stateEndValue st c
          else stateBeginValue st c
      | BeginStringOrEmpty \<Rightarrow>
          if isSpace c then Continue BeginStringOrEmpty st
          else if c = CHR ''}'' then stateEndValue st c
          else stateBeginString st c
      | BeginString \<Rightarrow> stateBeginString st c
      | EndValue \<Rightarrow> stateEndValue st c
      | EndTop v \<Rightarrow> DoneBefore v
      | InString raw \<Rightarrow>
          if byte c = 0x22 then end_value (JString (unquote raw)) st
          else if byte c = 0x5C then Continue (InStringEsc (raw @ [c])) st
          else if byte c < 0x20 then Invalid
          else Continue (InString (raw @ [c])) st
      | InStringEsc raw \<Rightarrow>
          if byte c = 0x62 \<or> byte c = 0x66 \<or> byte c = 0x6E \<or> byte c = 0x72 \<or> byte c = 0x74
             \<or> byte c = 0x5C \<or> byte c = 0x2F \<or> byte c = 0x22
          then Continue (InString (raw @ [c])) st
          else if byte c = 0x75 then Continue (InStringEscU (raw @ [c]) 0) st
          else Invalid
      | InStringEscU raw n \<Rightarrow>
          if isHex c then
            (if n < 3 then Continue (InStringEscU (raw @ [c]) (Suc n)) st
             else Continue (InString (raw @ [c])) st)
          else Invalid
      | Num n lit \<Rightarrow> stateNum n lit st c
      | Lit rest v \<Rightarrow>
          (case rest of
             [] \<Rightarrow> Invalid
           | x # xs \<Rightarrow>
               if c = x then (if xs = [] then end_value v st else Continue (Lit xs v) st)
               else Invalid))"

subsection \<open>Scanning a text\<close>

datatype scan_result =
    ScanValue json string
  | ScanMore lex "frame list"
  | ScanError

text \<open>
  The scanner runs to the end of the first JSON value: \<open>ScanValue v rest\<close> with the bytes
  \<open>rest\<close> after it, \<open>ScanMore\<close> when the text ends first, \<open>ScanError\<close> at a byte the
  grammar does not allow.
\<close>

fun scan :: "lex \<Rightarrow> frame list \<Rightarrow> string \<Rightarrow> scan_result" where
  "scan l st [] = ScanMore l st"
| "scan l st (c # cs) =
     (case step l st c of
        Continue l' st' \<Rightarrow> scan l' st' cs
      | DoneHere v \<Rightarrow> ScanValue v cs
      | DoneBefore v \<Rightarrow> ScanValue v (c # cs)
      | Invalid \<Rightarrow> ScanError)"

text \<open>What the text so far is, when the input ends: a top-level scalar is complete.\<close>

fun eof_value :: "lex \<Rightarrow> frame list \<Rightarrow> json option" where
  "eof_value (EndTop v) st = Some v"
| "eof_value (Num n lit) st =
     (if st = [] \<and> (n = N0 \<or> n = N1 \<or> n = Dot0 \<or> n = E0) then Some (JNumber lit) else None)"
| "eof_value l st = None"


section \<open>Errors\<close>

text \<open>
  \<^verbatim>\<open>APIError\<close> of the source: the body of an error response. A Go map or slice is
  \<open>None\<close> when it is \<^verbatim>\<open>nil\<close>.
\<close>

record APIError =
  Summary :: string
  Metadata :: "(string \<rightharpoonup> string) option"

text \<open>
  The values of Go's \<^verbatim>\<open>error\<close> that the calls can return: the decoder's (end of
  input before any value, end of input inside a value, a text that is not JSON, a JSON value
  that does not fit the Go type, with the description of the value), an error of
  \<^verbatim>\<open>json.Marshal\<close>, an \<^verbatim>\<open>APIError\<close> value returned as the error, the error of the
  HTTP transport (a cancelled context is one of them), and an error of reading the body.
\<close>

datatype error =
    EOF
  | ErrUnexpectedEOF
  | SyntaxError
  | UnmarshalTypeError string
  | MarshalError string
  | RemoteError APIError
  | TransportError string
  | ReadError string

text \<open>The errors the specification calls \<^verbatim>\<open>EncodingError\<close>.\<close>

fun is_EncodingError :: "error \<Rightarrow> bool" where
  "is_EncodingError EOF = True"
| "is_EncodingError ErrUnexpectedEOF = True"
| "is_EncodingError SyntaxError = True"
| "is_EncodingError (UnmarshalTypeError d) = True"
| "is_EncodingError (MarshalError d) = True"
| "is_EncodingError e = False"

section \<open>Reading JSON from a text and from a stream\<close>

text \<open>
  A response body is a stream: the bytes it delivers, and then either the end of the stream
  (\<open>None\<close>) or an error of the connection.
\<close>

record stream =
  data :: string
  fail :: "error option"

text \<open>
  \<^verbatim>\<open>ioutil.ReadAll\<close>: everything the stream delivers, with the error that ended it.
\<close>

definition ReadAll :: "stream \<Rightarrow> string option \<times> error option" where
  "ReadAll r = (Some (data r), fail r)"

text \<open>
  \<^verbatim>\<open>checkValid\<close>, the first pass of \<^verbatim>\<open>json.Unmarshal\<close>: the whole text is one JSON
  value, with white space around it and nothing else.
\<close>

definition checkValid :: "string \<Rightarrow> error + json" where
  "checkValid s =
     (case scan BeginValue [] s of
        ScanError \<Rightarrow> Inl SyntaxError
      | ScanValue v rest \<Rightarrow> if list_all isSpace rest then Inr v else Inl SyntaxError
      | ScanMore l st \<Rightarrow> (case eof_value l st of Some v \<Rightarrow> Inr v | None \<Rightarrow> Inl SyntaxError))"

text \<open>
  \<^verbatim>\<open>Decoder.readValue\<close>: the first JSON value of the stream. What follows it is not
  read. When the bytes end inside a value, the error is the stream's, or
  \<^verbatim>\<open>io.ErrUnexpectedEOF\<close> at the end of the stream (\<^verbatim>\<open>io.EOF\<close> when there was
  nothing but white space).
\<close>

definition readValue :: "stream \<Rightarrow> error + json" where
  "readValue r =
     (case scan BeginValue [] (data r) of
        ScanError \<Rightarrow> Inl SyntaxError
      | ScanValue v rest \<Rightarrow> Inr v
      | ScanMore l st \<Rightarrow>
          (case fail r of
             Some e \<Rightarrow> Inl e
           | None \<Rightarrow>
               (case eof_value l st of
                  Some v \<Rightarrow> Inr v
                | None \<Rightarrow> Inl (if list_all isSpace (data r) then EOF else ErrUnexpectedEOF))))"

section \<open>Storing JSON values into Go values\<close>

text \<open>
  Storing a JSON value into a Go value gives the new Go value and the error to report. A
  value that does not fit (\<^verbatim>\<open>UnmarshalTypeError\<close>) is skipped and decoding goes on: the
  first such error is kept and returned at the end, with everything else stored.
\<close>

type_synonym 'a store = "json \<Rightarrow> 'a \<Rightarrow> 'a \<times> error option"

definition saveError :: "error option \<Rightarrow> error option \<Rightarrow> error option" where
  "saveError saved e = (case saved of None \<Rightarrow> e | Some x \<Rightarrow> Some x)"

fun describe :: "json \<Rightarrow> string" where
  "describe JNull = ''null''"
| "describe (JBool b) = ''bool''"
| "describe (JNumber lit) = ''number''"
| "describe (JString s) = ''string''"
| "describe (JArray vs) = ''array''"
| "describe (JObject kvs) = ''object''"

fun store_string :: "string store" where
  "store_string (JString s) cur = (s, None)"
| "store_string JNull cur = (cur, None)"
| "store_string v cur = (cur, Some (UnmarshalTypeError (describe v)))"

fun store_bool :: "bool store" where
  "store_bool (JBool b) cur = (b, None)"
| "store_bool JNull cur = (cur, None)"
| "store_bool v cur = (cur, Some (UnmarshalTypeError (describe v)))"

definition digits_value :: "string \<Rightarrow> nat" where
  "digits_value ds = foldl (\<lambda>n c. 10 * n + (byte c - 0x30)) 0 ds"

text \<open>
  \<^verbatim>\<open>strconv.ParseInt(s, 10, 64)\<close>: an optional sign and decimal digits, within 64 bits.
\<close>

definition ParseInt :: "string \<Rightarrow> int option" where
  "ParseInt s =
     (let (neg, ds) =
            (case s of
               [] \<Rightarrow> (False, [])
             | c # r \<Rightarrow>
                 if c = CHR ''-'' then (True, r)
                 else if c = CHR ''+'' then (False, r)
                 else (False, s))
      in
        if ds \<noteq> [] \<and> list_all isDigit ds then
          (let n = int (digits_value ds); v = (if neg then - n else n)
           in if - (2 ^ 63) \<le> v \<and> v < 2 ^ 63 then Some v else None)
        else None)"

text \<open>
  A JSON number into a signed integer of \<open>LENGTH('a)\<close> bits (at most 64): the literal
  must be an integer in range, else the value is an \<^verbatim>\<open>UnmarshalTypeError\<close>.
\<close>

definition store_int :: "('a::len) word store" where
  "store_int v cur =
     (case v of
        JNull \<Rightarrow> (cur, None)
      | JNumber lit \<Rightarrow>
          (case ParseInt lit of
             None \<Rightarrow> (cur, Some (UnmarshalTypeError (''number '' @ lit)))
           | Some n \<Rightarrow>
               if - (2 ^ (LENGTH('a) - 1)) \<le> n \<and> n < 2 ^ (LENGTH('a) - 1)
               then (word_of_int n, None)
               else (cur, Some (UnmarshalTypeError (''number '' @ lit))))
      | _ \<Rightarrow> (cur, Some (UnmarshalTypeError (describe v))))"

text \<open>
  A JSON array into a slice. A slice is its elements (\<open>None\<close> for \<^verbatim>\<open>nil\<close>) and,
  beside them, the elements that its backing array still holds beyond its length: a
  shorter array leaves them there (\<^verbatim>\<open>SetLen\<close>), and a later, longer array is stored into
  them. Element \<open>i\<close> of the array is stored into element \<open>i\<close> of the backing array
  when there is one, else into a zero value; the slice ends up as long as the array. An
  empty array gives a new empty slice, and \<^verbatim>\<open>null\<close> makes the slice \<^verbatim>\<open>nil\<close>.
\<close>

fun store_elems :: "'a \<Rightarrow> 'a store \<Rightarrow> json list \<Rightarrow> 'a list \<Rightarrow> 'a list \<times> error option" where
  "store_elems zero st [] old = ([], None)"
| "store_elems zero st (v # vs) old =
     (let (x, e) = st v (case old of [] \<Rightarrow> zero | y # ys \<Rightarrow> y);
          (xs, e') = store_elems zero st vs (tl old)
      in (x # xs, saveError e e'))"

definition store_slice :: "'a \<Rightarrow> 'a store \<Rightarrow> ('a list option \<times> 'a list) store" where
  "store_slice zero st v cur =
     (case v of
        JNull \<Rightarrow> ((None, []), None)
      | JArray vs \<Rightarrow>
          (let old = (case fst cur of None \<Rightarrow> [] | Some xs \<Rightarrow> xs) @ snd cur;
               (xs, e) = store_elems zero st vs old
           in if vs = [] then ((Some [], []), e)
              else ((Some xs, drop (length vs) old), e))
      | _ \<Rightarrow> (cur, Some (UnmarshalTypeError (describe v))))"

text \<open>
  A JSON object into a \<^verbatim>\<open>map[string]string\<close>: a \<^verbatim>\<open>nil\<close> map is allocated, and every
  member is stored into a new element that is put under the member's key (also when the
  member's value does not fit: the element is then the empty string). \<^verbatim>\<open>null\<close> makes
  the map \<^verbatim>\<open>nil\<close>.
\<close>

fun store_members :: "(string \<times> json) list \<Rightarrow> (string \<rightharpoonup> string) \<Rightarrow> (string \<rightharpoonup> string) \<times> error option" where
  "store_members [] m = (m, None)"
| "store_members ((k, v) # kvs) m =
     (let (x, e) = store_string v [];
          (m', e') = store_members kvs (m(k \<mapsto> x))
      in (m', saveError e e'))"

definition store_map :: "(string \<rightharpoonup> string) option store" where
  "store_map v cur =
     (case v of
        JNull \<Rightarrow> (None, None)
      | JObject kvs \<Rightarrow>
          (let (m, e) = store_members kvs (case cur of None \<Rightarrow> Map.empty | Some m \<Rightarrow> m)
           in (Some m, e))
      | _ \<Rightarrow> (cur, Some (UnmarshalTypeError (describe v))))"

subsection \<open>Structs\<close>

text \<open>
  \<^verbatim>\<open>foldName\<close>: the key under which names are compared without case. ASCII letters
  become upper case; the two other runes whose case folding is an ASCII letter, U+017F
  (long s) and U+212A (Kelvin sign), become \<open>S\<close> and \<open>K\<close>. Every other rune folds to a
  rune outside ASCII, so its bytes are kept: they match no ASCII name either way.
\<close>

fun foldName :: "string \<Rightarrow> string" where
  "foldName [] = []"
| "foldName (c # cs) =
     (if 0x61 \<le> byte c \<and> byte c \<le> 0x7A then char_of (byte c - 0x20) # foldName cs
      else if byte c = 0xC5 then
        (case cs of
           d # ds \<Rightarrow> if byte d = 0xBF then CHR ''S'' # foldName ds else c # foldName cs
         | [] \<Rightarrow> [c])
      else if byte c = 0xE2 then
        (case cs of
           d # e # es \<Rightarrow>
             if byte d = 0x84 \<and> byte e = 0xAA then CHR ''K'' # foldName es else c # foldName cs
         | _ \<Rightarrow> c # foldName cs)
      else c # foldName cs)"

text \<open>
  The field a key of a JSON object goes to: the field of that name, else the first field
  whose name is the key up to case; no field when there is none.
\<close>

definition field_of_key :: "string list \<Rightarrow> string \<Rightarrow> string option" where
  "field_of_key names key =
     (if key \<in> set names then Some key
      else find (\<lambda>n. foldName n = foldName key) names)"

fun store_fields :: "string list \<Rightarrow> (string \<Rightarrow> 'a store) \<Rightarrow> (string \<times> json) list \<Rightarrow> 'a \<Rightarrow> 'a \<times> error option" where
  "store_fields names field [] cur = (cur, None)"
| "store_fields names field ((k, v) # kvs) cur =
     (case field_of_key names k of
        None \<Rightarrow> store_fields names field kvs cur
      | Some n \<Rightarrow>
          (let (cur', e) = field n v cur;
               (cur'', e') = store_fields names field kvs cur'
           in (cur'', saveError e e')))"

text \<open>
  A JSON object into a struct with the given field names: the members are stored in the
  order of the text, members that belong to no field are skipped. \<^verbatim>\<open>null\<close> leaves
  the struct as it is; any other JSON value does not fit.
\<close>

definition store_struct :: "string list \<Rightarrow> (string \<Rightarrow> 'a store) \<Rightarrow> 'a store" where
  "store_struct names field v cur =
     (case v of
        JNull \<Rightarrow> (cur, None)
      | JObject kvs \<Rightarrow> store_fields names field kvs cur
      | _ \<Rightarrow> (cur, Some (UnmarshalTypeError (describe v))))"

text \<open>
  \<^verbatim>\<open>json.Unmarshal(data, &out)\<close>: nothing is stored unless the whole text is valid.
\<close>

definition Unmarshal :: "'a store \<Rightarrow> string \<Rightarrow> 'a \<Rightarrow> 'a \<times> error option" where
  "Unmarshal st s out =
     (case checkValid s of
        Inl e \<Rightarrow> (out, Some e)
      | Inr v \<Rightarrow> st v out)"

text \<open>
  \<^verbatim>\<open>json.NewDecoder(r).Decode(&out)\<close>: nothing is stored unless a first value is read.
\<close>

definition Decode :: "'a store \<Rightarrow> stream \<Rightarrow> 'a \<Rightarrow> 'a \<times> error option" where
  "Decode st r out =
     (case readValue r of
        Inl e \<Rightarrow> (out, Some e)
      | Inr v \<Rightarrow> st v out)"

section \<open>Writing JSON: \<^verbatim>\<open>json.Marshal\<close>\<close>

definition hex :: "nat \<Rightarrow> char" where
  "hex n = ''0123456789abcdef'' ! (n mod 16)"

text \<open>
  The bytes below 0x80 that are written as they are (\<^verbatim>\<open>htmlSafeSet\<close>): from the space
  on, except the quote, the backslash and \<^verbatim>\<open><\<close>, \<^verbatim>\<open>>\<close>, \<^verbatim>\<open>&\<close>.
\<close>

definition htmlSafe :: "char \<Rightarrow> bool" where
  "htmlSafe c =
     (0x20 \<le> byte c \<and> byte c < 0x80 \<and> byte c \<noteq> 0x22 \<and> byte c \<noteq> 0x5C
        \<and> byte c \<noteq> 0x3C \<and> byte c \<noteq> 0x3E \<and> byte c \<noteq> 0x26)"

text \<open>
  The body of a string literal: control characters and the HTML characters are escaped
  (backspace and form feed by their short escapes, as current Go releases do), bytes that
  are not UTF-8 are written as the escape of U+FFFD, and U+2028 and U+2029 are escaped.
\<close>

function escape :: "string \<Rightarrow> string" where
  "escape [] = []"
| "escape (c # cs) =
     (if byte c < 0x80 then
        (if htmlSafe c then c # escape cs
         else if byte c = 0x5C \<or> byte c = 0x22 then [CHR 0x5C, c] @ escape cs
         else if byte c = 0x08 then [CHR 0x5C, CHR ''b''] @ escape cs
         else if byte c = 0x0C then [CHR 0x5C, CHR ''f''] @ escape cs
         else if byte c = 0x0A then [CHR 0x5C, CHR ''n''] @ escape cs
         else if byte c = 0x0D then [CHR 0x5C, CHR ''r''] @ escape cs
         else if byte c = 0x09 then [CHR 0x5C, CHR ''t''] @ escape cs
         else [CHR 0x5C, CHR ''u'', CHR ''0'', CHR ''0'', hex (byte c div 16), hex (byte c)]
                @ escape cs)
      else
        (let (r, size) = DecodeRune (c # cs) in
         if r = RuneError \<and> size = 1 then
           [CHR 0x5C, CHR ''u'', CHR ''f'', CHR ''f'', CHR ''f'', CHR ''d''] @ escape cs
         else if r = 0x2028 \<or> r = 0x2029 then
           [CHR 0x5C, CHR ''u'', CHR ''2'', CHR ''0'', CHR ''2'', hex r]
             @ escape (drop (size - 1) cs)
         else take size (c # cs) @ escape (drop (size - 1) cs)))"
  by pat_completeness auto
termination
  by (relation "measure length") auto

definition appendString :: "string \<Rightarrow> string" where
  "appendString s = [CHR 0x22] @ escape s @ [CHR 0x22]"

text \<open>\<^verbatim>\<open>strconv.FormatInt(i, 10)\<close>.\<close>

function FormatUint :: "nat \<Rightarrow> string" where
  "FormatUint n =
     (if n < 10 then [char_of (0x30 + n)]
      else FormatUint (n div 10) @ [char_of (0x30 + n mod 10)])"
  by pat_completeness auto
termination
  by (relation "measure id") auto

declare FormatUint.simps [simp del]

definition FormatInt :: "int \<Rightarrow> string" where
  "FormatInt i = (if i < 0 then CHR ''-'' # FormatUint (nat (- i)) else FormatUint (nat i))"

text \<open>
  A struct: the fields that are written, each as \<^verbatim>\<open>"name":value\<close>, between braces and
  separated by commas.
\<close>

fun join_fields :: "string list \<Rightarrow> string" where
  "join_fields [] = []"
| "join_fields [f] = f"
| "join_fields (f # g # fs) = f @ '','' @ join_fields (g # fs)"

definition member :: "string \<Rightarrow> string \<Rightarrow> string" where
  "member name val = appendString name @ '':'' @ val"

definition marshal_struct :: "string list \<Rightarrow> string" where
  "marshal_struct fs = ''{'' @ join_fields fs @ ''}''"


section \<open>HTTP: requests, responses and the transport\<close>

text \<open>
  \<^verbatim>\<open>http.Header\<close> is a map from canonical header names to lists of values.
\<close>

type_synonym header = "string \<rightharpoonup> string list"

definition validHeaderFieldByte :: "char \<Rightarrow> bool" where
  "validHeaderFieldByte c =
     (isDigit c \<or> (0x61 \<le> byte c \<and> byte c \<le> 0x7A) \<or> (0x41 \<le> byte c \<and> byte c \<le> 0x5A)
        \<or> c \<in> set ''!#$%&*+-.^_`|~'' \<or> byte c = 0x27)"

fun canonical :: "bool \<Rightarrow> string \<Rightarrow> string" where
  "canonical upper [] = []"
| "canonical upper (c # cs) =
     (let c' = (if upper \<and> 0x61 \<le> byte c \<and> byte c \<le> 0x7A then char_of (byte c - 0x20)
                else if \<not> upper \<and> 0x41 \<le> byte c \<and> byte c \<le> 0x5A then char_of (byte c + 0x20)
                else c)
      in c' # canonical (c' = CHR ''-'') cs)"

text \<open>
  \<^verbatim>\<open>textproto.CanonicalMIMEHeaderKey\<close>: the first letter and every letter after a
  hyphen in upper case, the others in lower case; a name with a byte that cannot be in a
  header name is left as it is.
\<close>

definition CanonicalMIMEHeaderKey :: "string \<Rightarrow> string" where
  "CanonicalMIMEHeaderKey s = (if list_all validHeaderFieldByte s then canonical True s else s)"

definition Set :: "header \<Rightarrow> string \<Rightarrow> string \<Rightarrow> header" where
  "Set h key val = h(CanonicalMIMEHeaderKey key \<mapsto> [val])"

definition Get :: "header \<Rightarrow> string \<Rightarrow> string" where
  "Get h key =
     (case h (CanonicalMIMEHeaderKey key) of
        None \<Rightarrow> []
      | Some [] \<Rightarrow> []
      | Some (v # vs) \<Rightarrow> v)"

record request =
  Method :: string
  URL :: string
  Header :: header
  Body :: string

text \<open>
  A response: the client stores the headers it receives under their canonical names, so
  the header \<^verbatim>\<open>Dropbox-API-Result\<close> of a server is the entry \<^verbatim>\<open>Dropbox-Api-Result\<close>.
\<close>

record response =
  StatusCode :: int
  Header :: header
  Body :: stream

text \<open>
  \<^verbatim>\<open>http.NewRequest(method, url, bytes.NewReader(body))\<close>: a request with no header.
\<close>

definition NewRequest :: "string \<Rightarrow> string \<Rightarrow> string \<Rightarrow> request" where
  "NewRequest method url body =
     \<lparr>Method = method, URL = url, request.Header = Map.empty, request.Body = body\<rparr>"

definition StatusOK :: int where
  "StatusOK = 200"

section \<open>The client\<close>

text \<open>
  \<^verbatim>\<open>APIClient\<close>: the token and the HTTP client. \<^verbatim>\<open>HTTP.Do\<close> is what the network
  answers to a request: a response, or an error. The context of a call is only handed on to
  the transport (\<^verbatim>\<open>req.WithContext(ctx)\<close>), so what it does is part of that answer: a
  cancelled or expired context makes \<^verbatim>\<open>Do\<close> return an error.
\<close>

record APIClient =
  Token :: string
  HTTP :: "request \<Rightarrow> error + response"

text \<open>\<^verbatim>\<open>NewClient\<close>; \<open>net\<close> is the behaviour of \<^verbatim>\<open>http.Client{}\<close>.\<close>

definition NewClient :: "(request \<Rightarrow> error + response) \<Rightarrow> string \<Rightarrow> APIClient" where
  "NewClient net token = \<lparr>Token = token, HTTP = net\<rparr>"

definition zero_APIError :: APIError where
  "zero_APIError = \<lparr>Summary = [], Metadata = None\<rparr>"

definition APIError_fields :: "string list" where
  "APIError_fields = [''error_summary'', ''error'']"

definition APIError_field :: "string \<Rightarrow> APIError store" where
  "APIError_field name v e =
     (if name = ''error_summary'' then
        (let (s, err) = store_string v (Summary e) in (e\<lparr>Summary := s\<rparr>, err))
      else
        (let (m, err) = store_map v (Metadata e) in (e\<lparr>Metadata := m\<rparr>, err)))"

definition store_APIError :: "APIError store" where
  "store_APIError = store_struct APIError_fields APIError_field"

text \<open>
  The non-200 branch of \<open>rpc\<close> and \<open>content\<close>: the body is decoded into a new
  \<^verbatim>\<open>APIError\<close>; the error is the decoder's when it has one, else the \<^verbatim>\<open>APIError\<close>.
\<close>

definition decode_apierr :: "stream \<Rightarrow> error" where
  "decode_apierr body =
     (case Decode store_APIError body zero_APIError of
        (apierr, Some err) \<Rightarrow> err
      | (apierr, None) \<Rightarrow> RemoteError apierr)"

text \<open>
  \<open>rpc\<close>: the requests that were handed to the transport, the destination \<open>out\<close> as the
  call leaves it, and the error (\<open>None\<close> for \<^verbatim>\<open>nil\<close>). \<open>marshal\<close> and \<open>st\<close> are
  \<^verbatim>\<open>json.Marshal\<close> and the decoding at the dynamic types of \<open>in\<close> and \<open>out\<close>.
\<close>

definition rpc :: "APIClient \<Rightarrow> string \<Rightarrow> ('i \<Rightarrow> error + string) \<Rightarrow> 'i \<Rightarrow> 'o store \<Rightarrow> 'o
    \<Rightarrow> request list \<times> 'o \<times> error option" where
  "rpc c url marshal inp st out =
     (case marshal inp of
        Inl err \<Rightarrow> ([], out, Some err)
      | Inr body \<Rightarrow>
          (let req = NewRequest ''POST'' url body;
               req = req\<lparr>request.Header :=
                          Set (request.Header req) ''Authorization'' (''Bearer '' @ Token c)\<rparr>;
               req = req\<lparr>request.Header :=
                          Set (request.Header req) ''Content-Type'' ''application/json''\<rparr>
           in
             (case HTTP c req of
                Inl err \<Rightarrow> ([req], out, Some err)
              | Inr resp \<Rightarrow>
                  if StatusCode resp \<noteq> StatusOK then
                    ([req], out, Some (decode_apierr (response.Body resp)))
                  else
                    (let (out', err) = Decode st (response.Body resp) out
                     in ([req], out', err)))))"

text \<open>
  \<open>content\<close>: as \<open>rpc\<close>, with the bytes of the body (\<open>None\<close> for the \<^verbatim>\<open>nil\<close> slice).
\<close>

definition content :: "APIClient \<Rightarrow> string \<Rightarrow> ('i \<Rightarrow> error + string) \<Rightarrow> 'i \<Rightarrow> 'o store \<Rightarrow> 'o
    \<Rightarrow> request list \<times> 'o \<times> string option \<times> error option" where
  "content c url marshal inp st out =
     (let contents = None in
      case marshal inp of
        Inl err \<Rightarrow> ([], out, contents, Some err)
      | Inr body \<Rightarrow>
          (let req = NewRequest ''POST'' url body;
               req = req\<lparr>request.Header :=
                          Set (request.Header req) ''Authorization'' (''Bearer '' @ Token c)\<rparr>;
               req = req\<lparr>request.Header :=
                          Set (request.Header req) ''Dropbox-API-Arg'' body\<rparr>
           in
             (case HTTP c req of
                Inl err \<Rightarrow> ([req], out, contents, Some err)
              | Inr resp \<Rightarrow>
                  if StatusCode resp \<noteq> StatusOK then
                    ([req], out, contents, Some (decode_apierr (response.Body resp)))
                  else
                    (let result = Get (response.Header resp) ''Dropbox-API-Result'';
                         (out', uerr) = (if result \<noteq> [] then Unmarshal st result out
                                         else (out, None))
                     in
                       (case uerr of
                          Some err \<Rightarrow> ([req], out', contents, Some err)
                        | None \<Rightarrow>
                            (let (bytes, err) = ReadAll (response.Body resp)
                             in ([req], out', bytes, err)))))))"


section \<open>The operations of \<^verbatim>\<open>paper.go\<close>\<close>

subsection \<open>Listing documents\<close>

type_synonym ListPaperDocsFilterBy = string
type_synonym ListPaperDocsSortBy = string
type_synonym ListPaperDocsSortOrder = string

definition ListPaperDocsFilterByAccessed :: ListPaperDocsFilterBy where
  "ListPaperDocsFilterByAccessed = ''accessed''"

definition ListPaperDocsFilterByModified :: string where
  "ListPaperDocsFilterByModified = ''modified''"

definition ListPaperDocsFilterByCreated :: string where
  "ListPaperDocsFilterByCreated = ''created''"

definition ListPaperDocsSortByAccessed :: ListPaperDocsSortBy where
  "ListPaperDocsSortByAccessed = ''accessed''"

definition ListPaperDocsSortByModified :: string where
  "ListPaperDocsSortByModified = ''modified''"

definition ListPaperDocsSortByCreated :: string where
  "ListPaperDocsSortByCreated = ''created''"

definition ListPaperDocsSortOrderAsc :: ListPaperDocsSortOrder where
  "ListPaperDocsSortOrderAsc = ''ascending''"

definition ListPaperDocsSortOrderDesc :: string where
  "ListPaperDocsSortOrderDesc = ''descending''"

record ListPaperDocsArgs =
  FilterBy :: ListPaperDocsFilterBy
  SortBy :: ListPaperDocsSortBy
  SortOrder :: ListPaperDocsSortOrder
  Limit :: "32 word"

text \<open>
  \<^verbatim>\<open>json.Marshal\<close> of a \<^verbatim>\<open>*ListPaperDocsArgs\<close> (\<open>None\<close> is the \<^verbatim>\<open>nil\<close> pointer):
  every field has \<^verbatim>\<open>omitempty\<close>, so an empty string and a zero limit are left out.
\<close>

definition Marshal_ListPaperDocsArgs :: "ListPaperDocsArgs option \<Rightarrow> error + string" where
  "Marshal_ListPaperDocsArgs inp =
     (case inp of
        None \<Rightarrow> Inr ''null''
      | Some a \<Rightarrow>
          Inr (marshal_struct
                 ((if FilterBy a \<noteq> [] then [member ''filter_by'' (appendString (FilterBy a))] else [])
                  @ (if SortBy a \<noteq> [] then [member ''sort_by'' (appendString (SortBy a))] else [])
                  @ (if SortOrder a \<noteq> [] then [member ''sort_order'' (appendString (SortOrder a))] else [])
                  @ (if Limit a \<noteq> 0 then [member ''limit'' (FormatInt (sint (Limit a)))] else []))))"

definition zero_ListPaperDocsArgs :: ListPaperDocsArgs where
  "zero_ListPaperDocsArgs = \<lparr>FilterBy = [], SortBy = [], SortOrder = [], Limit = 0\<rparr>"

definition ListPaperDocsArgs_fields :: "string list" where
  "ListPaperDocsArgs_fields = [''filter_by'', ''sort_by'', ''sort_order'', ''limit'']"

definition ListPaperDocsArgs_field :: "string \<Rightarrow> ListPaperDocsArgs store" where
  "ListPaperDocsArgs_field name v a =
     (if name = ''filter_by'' then
        (let (s, err) = store_string v (FilterBy a) in (a\<lparr>FilterBy := s\<rparr>, err))
      else if name = ''sort_by'' then
        (let (s, err) = store_string v (SortBy a) in (a\<lparr>SortBy := s\<rparr>, err))
      else if name = ''sort_order'' then
        (let (s, err) = store_string v (SortOrder a) in (a\<lparr>SortOrder := s\<rparr>, err))
      else
        (let (n, err) = store_int v (Limit a) in (a\<lparr>Limit := n\<rparr>, err)))"

definition store_ListPaperDocsArgs :: "ListPaperDocsArgs store" where
  "store_ListPaperDocsArgs = store_struct ListPaperDocsArgs_fields ListPaperDocsArgs_field"

record Cursor =
  Value :: string
  Expiration :: string

definition zero_Cursor :: Cursor where
  "zero_Cursor = \<lparr>Value = [], Expiration = []\<rparr>"

definition Cursor_fields :: "string list" where
  "Cursor_fields = [''value'', ''expiration'']"

definition Cursor_field :: "string \<Rightarrow> Cursor store" where
  "Cursor_field name v c =
     (if name = ''value'' then
        (let (s, err) = store_string v (Value c) in (c\<lparr>Value := s\<rparr>, err))
      else
        (let (s, err) = store_string v (Expiration c) in (c\<lparr>Expiration := s\<rparr>, err)))"

definition store_Cursor :: "Cursor store" where
  "store_Cursor = store_struct Cursor_fields Cursor_field"

record ListPaperDocsResponse =
  DocIDs :: "string list option"
  Cursor :: Cursor
  HasMore :: bool

definition zero_ListPaperDocsResponse :: ListPaperDocsResponse where
  "zero_ListPaperDocsResponse = \<lparr>DocIDs = None, Cursor = zero_Cursor, HasMore = False\<rparr>"

text \<open>
  The JSON names of the fields of \<^verbatim>\<open>ListPaperDocsResponse\<close>. The tag of
  \<^verbatim>\<open>HasMore\<close> is \<^verbatim>\<open>json"has_more"\<close>, without the colon: it is not a
  \<^verbatim>\<open>key:"value"\<close> tag, the lookup of the key \<^verbatim>\<open>json\<close> finds nothing, and the
  field goes by its Go name.
\<close>

definition ListPaperDocsResponse_fields :: "string list" where
  "ListPaperDocsResponse_fields = [''doc_ids'', ''cursor'', ''HasMore'']"

text \<open>
  While one text is stored, the struct goes with the spare elements of the backing array of
  \<^verbatim>\<open>DocIDs\<close>. They are no part of the value the call returns. The destination of the
  source is always a new value, whose slice has no backing array.
\<close>

definition ListPaperDocsResponse_field ::
    "string \<Rightarrow> (ListPaperDocsResponse \<times> string list) store" where
  "ListPaperDocsResponse_field name v rs =
     (let r = fst rs; spare = snd rs in
      if name = ''doc_ids'' then
        (let ((ids, spare'), err) = store_slice [] store_string v (DocIDs r, spare)
         in ((r\<lparr>DocIDs := ids\<rparr>, spare'), err))
      else if name = ''cursor'' then
        (let (c, err) = store_Cursor v (Cursor r) in ((r\<lparr>Cursor := c\<rparr>, spare), err))
      else
        (let (b, err) = store_bool v (HasMore r) in ((r\<lparr>HasMore := b\<rparr>, spare), err)))"

definition store_ListPaperDocsResponse :: "ListPaperDocsResponse store" where
  "store_ListPaperDocsResponse v r =
     (let (rs, err) =
            store_struct ListPaperDocsResponse_fields ListPaperDocsResponse_field v (r, [])
      in (fst rs, err))"

definition ListDocs :: "APIClient \<Rightarrow> ListPaperDocsArgs option
    \<Rightarrow> request list \<times> ListPaperDocsResponse \<times> error option" where
  "ListDocs c inp =
     (let out = zero_ListPaperDocsResponse
      in rpc c ''https://api.dropboxapi.com/2/paper/docs/list''
           Marshal_ListPaperDocsArgs inp store_ListPaperDocsResponse out)"

subsection \<open>Downloading a document\<close>

type_synonym ExportFormat = string

definition ExportFormatMarkdown :: ExportFormat where
  "ExportFormatMarkdown = ''markdown''"

definition ExportFormatHTML :: ExportFormat where
  "ExportFormatHTML = ''html''"

record PaperDocExport =
  DocID :: string
  Format :: ExportFormat

definition Marshal_PaperDocExport :: "PaperDocExport option \<Rightarrow> error + string" where
  "Marshal_PaperDocExport inp =
     (case inp of
        None \<Rightarrow> Inr ''null''
      | Some a \<Rightarrow>
          Inr (marshal_struct
                 ((if PaperDocExport.DocID a \<noteq> []
                   then [member ''doc_id'' (appendString (PaperDocExport.DocID a))] else [])
                  @ (if Format a \<noteq> []
                     then [member ''export_format'' (appendString (Format a))] else []))))"

record PaperDocExportResult =
  Owner :: string
  Title :: string
  Revision :: "64 word"
  MIME :: string

definition zero_PaperDocExportResult :: PaperDocExportResult where
  "zero_PaperDocExportResult = \<lparr>Owner = [], Title = [], Revision = 0, MIME = []\<rparr>"

definition PaperDocExportResult_fields :: "string list" where
  "PaperDocExportResult_fields = [''owner'', ''title'', ''revision'', ''mime_type'']"

definition PaperDocExportResult_field :: "string \<Rightarrow> PaperDocExportResult store" where
  "PaperDocExportResult_field name v r =
     (if name = ''owner'' then
        (let (s, err) = store_string v (Owner r) in (r\<lparr>Owner := s\<rparr>, err))
      else if name = ''title'' then
        (let (s, err) = store_string v (Title r) in (r\<lparr>Title := s\<rparr>, err))
      else if name = ''revision'' then
        (let (n, err) = store_int v (Revision r) in (r\<lparr>Revision := n\<rparr>, err))
      else
        (let (s, err) = store_string v (MIME r) in (r\<lparr>MIME := s\<rparr>, err)))"

definition store_PaperDocExportResult :: "PaperDocExportResult store" where
  "store_PaperDocExportResult =
     store_struct PaperDocExportResult_fields PaperDocExportResult_field"

definition DownloadDoc :: "APIClient \<Rightarrow> PaperDocExport option
    \<Rightarrow> request list \<times> PaperDocExportResult \<times> string option \<times> error option" where
  "DownloadDoc c inp =
     (let out = zero_PaperDocExportResult;
          (sent, out', blob, err) =
             content c ''https://api.dropboxapi.com/2/paper/docs/download''
               Marshal_PaperDocExport inp store_PaperDocExportResult out
      in (sent, out', blob, err))"

subsection \<open>The folders of a document\<close>

record RefPaperDoc =
  DocID :: string

definition Marshal_RefPaperDoc :: "RefPaperDoc option \<Rightarrow> error + string" where
  "Marshal_RefPaperDoc inp =
     (case inp of
        None \<Rightarrow> Inr ''null''
      | Some a \<Rightarrow>
          Inr (marshal_struct [member ''doc_id'' (appendString (RefPaperDoc.DocID a))]))"

record Folder =
  ID :: string
  Name :: string

definition zero_Folder :: Folder where
  "zero_Folder = \<lparr>ID = [], Name = []\<rparr>"

definition Folder_fields :: "string list" where
  "Folder_fields = [''id'', ''name'']"

definition Folder_field :: "string \<Rightarrow> Folder store" where
  "Folder_field name v f =
     (if name = ''id'' then
        (let (s, err) = store_string v (ID f) in (f\<lparr>ID := s\<rparr>, err))
      else
        (let (s, err) = store_string v (Name f) in (f\<lparr>Name := s\<rparr>, err)))"

definition store_Folder :: "Folder store" where
  "store_Folder = store_struct Folder_fields Folder_field"

type_synonym FolderSharingPolicyType = string

definition FolderSharingPolicyTeam :: FolderSharingPolicyType where
  "FolderSharingPolicyTeam = ''team''"

definition FolderSharingPolicyInviteOnly :: string where
  "FolderSharingPolicyInviteOnly = ''invite_only''"

record FoldersContainingPaperDoc =
  FolderSharingPolicyType :: FolderSharingPolicyType
  Folders :: "Folder list option"

definition zero_FoldersContainingPaperDoc :: FoldersContainingPaperDoc where
  "zero_FoldersContainingPaperDoc = \<lparr>FolderSharingPolicyType = [], Folders = None\<rparr>"

text \<open>The fields of \<^verbatim>\<open>FoldersContainingPaperDoc\<close> have no tag: they go by their Go names.\<close>

definition FoldersContainingPaperDoc_fields :: "string list" where
  "FoldersContainingPaperDoc_fields = [''FolderSharingPolicyType'', ''Folders'']"

definition FoldersContainingPaperDoc_field ::
    "string \<Rightarrow> (FoldersContainingPaperDoc \<times> Folder list) store" where
  "FoldersContainingPaperDoc_field name v rs =
     (let r = fst rs; spare = snd rs in
      if name = ''FolderSharingPolicyType'' then
        (let (s, err) = store_string v (FolderSharingPolicyType r)
         in ((r\<lparr>FolderSharingPolicyType := s\<rparr>, spare), err))
      else
        (let ((fs, spare'), err) = store_slice zero_Folder store_Folder v (Folders r, spare)
         in ((r\<lparr>Folders := fs\<rparr>, spare'), err)))"

definition store_FoldersContainingPaperDoc :: "FoldersContainingPaperDoc store" where
  "store_FoldersContainingPaperDoc v r =
     (let (rs, err) =
            store_struct FoldersContainingPaperDoc_fields FoldersContainingPaperDoc_field v (r, [])
      in (fst rs, err))"

definition GetDocFolderInfo :: "APIClient \<Rightarrow> RefPaperDoc option
    \<Rightarrow> request list \<times> FoldersContainingPaperDoc \<times> error option" where
  "GetDocFolderInfo c inp =
     (let out = zero_FoldersContainingPaperDoc
      in rpc c ''https://api.dropboxapi.com/2/paper/docs/get_folder_info''
           Marshal_RefPaperDoc inp store_FoldersContainingPaperDoc out)"


section \<open>Test doubles and example values\<close>

text \<open>A server that answers every request with the same response, and a dead network.\<close>

definition mock :: "response \<Rightarrow> request \<Rightarrow> error + response" where
  "mock resp req = Inr resp"

definition refuse :: "error \<Rightarrow> request \<Rightarrow> error + response" where
  "refuse e req = Inl e"

definition offline :: APIClient where
  "offline = NewClient (refuse (TransportError ''connection refused'')) ''tok''"

definition export_d1 :: PaperDocExport where
  "export_d1 = \<lparr>PaperDocExport.DocID = ''d1'', Format = ExportFormatMarkdown\<rparr>"

definition export_d1_json :: string where
  \<open>export_d1_json = ''{"doc_id":"d1","export_format":"markdown"}''\<close>

text \<open>A body that arrives in full.\<close>

definition complete :: "string \<Rightarrow> stream" where
  "complete s = \<lparr>data = s, fail = None\<rparr>"

definition has_more_json :: string where
  \<open>has_more_json =
     ''{"doc_ids":["a","b"],"cursor":{"value":"v","expiration":"e"},"has_more":true}''\<close>

definition has_more_resp :: response where
  "has_more_resp =
     \<lparr>StatusCode = 200, response.Header = Map.empty, response.Body = complete has_more_json\<rparr>"

definition conflict_json :: string where
  \<open>conflict_json = ''{"error_summary":"conflict","error":{"reason":"x"}}''\<close>

definition conflict_resp :: response where
  "conflict_resp =
     \<lparr>StatusCode = 409, response.Header = Map.empty, response.Body = complete conflict_json\<rparr>"

definition result_json :: string where
  \<open>result_json = ''{"owner":"u1","title":"Doc","revision":3,"mime_type":"text/markdown"}''\<close>

definition hello_resp :: response where
  "hello_resp =
     \<lparr>StatusCode = 200, response.Header = [''Dropbox-Api-Result'' \<mapsto> [result_json]],
      response.Body = complete ''hello world''\<rparr>"

definition data_resp :: response where
  "data_resp =
     \<lparr>StatusCode = 200, response.Header = Map.empty, response.Body = complete ''data''\<rparr>"

definition truncated_json :: string where
  \<open>truncated_json = ''{"owner":"u1"''\<close>

definition bad_result_resp :: response where
  "bad_result_resp =
     \<lparr>StatusCode = 200, response.Header = [''Dropbox-Api-Result'' \<mapsto> [truncated_json]],
      response.Body = complete ''data''\<rparr>"

definition misfit_json :: string where
  \<open>misfit_json = ''{"doc_ids":["a"],"cursor":5}''\<close>

definition misfit_resp :: response where
  "misfit_resp =
     \<lparr>StatusCode = 200, response.Header = Map.empty, response.Body = complete misfit_json\<rparr>"

definition upper_summary_json :: string where
  \<open>upper_summary_json = ''{"Error_Summary":"boom"}''\<close>

definition upper_summary_resp :: response where
  "upper_summary_resp =
     \<lparr>StatusCode = 500, response.Header = Map.empty,
      response.Body = complete upper_summary_json\<rparr>"

definition upper_error_json :: string where
  \<open>upper_error_json = ''{"ERROR":5}''\<close>

definition upper_error_resp :: response where
  "upper_error_resp =
     \<lparr>StatusCode = 500, response.Header = Map.empty,
      response.Body = complete upper_error_json\<rparr>"

definition empty_object_resp :: response where
  "empty_object_resp =
     \<lparr>StatusCode = 500, response.Header = Map.empty, response.Body = complete ''{}''\<rparr>"

text \<open>
  The answer of the transport makes a metadata call fail before anything is stored: the
  transport failed, or the status is not 200, or the body of a 200 response holds no
  complete JSON value, or its JSON value is neither an object nor \<^verbatim>\<open>null\<close> (a number, a
  string, a boolean or an array does not fit a struct). What is left is an object, whose
  members are stored one by one, and \<^verbatim>\<open>null\<close>, which stores nothing and is no failure.
\<close>

definition gives_no_object :: "error + response \<Rightarrow> bool" where
  "gives_no_object a =
     (case a of
        Inl e \<Rightarrow> True
      | Inr resp \<Rightarrow>
          (if StatusCode resp = StatusOK then
             (case readValue (response.Body resp) of
                Inl e \<Rightarrow> True
              | Inr JNull \<Rightarrow> False
              | Inr (JObject kvs) \<Rightarrow> False
              | Inr v \<Rightarrow> True)
           else True))"

definition five_resp :: response where
  "five_resp =
     \<lparr>StatusCode = 200, response.Header = Map.empty, response.Body = complete ''5''\<rparr>"

text \<open>
  A server whose list endpoint answers 409 and whose other endpoints answer with the
  folders of a document.
\<close>

definition folders_json :: string where
  \<open>folders_json = ''{"FolderSharingPolicyType":"team","Folders":[{"id":"1","name":"Eng"}]}''\<close>

definition folders_resp :: response where
  "folders_resp =
     \<lparr>StatusCode = 200, response.Header = Map.empty, response.Body = complete folders_json\<rparr>"

definition list_fails :: "request \<Rightarrow> error + response" where
  "list_fails req =
     (if URL req = ''https://api.dropboxapi.com/2/paper/docs/list'' then Inr conflict_resp
      else Inr folders_resp)"

text \<open>A body that breaks off: three bytes arrive, then the connection fails.\<close>

definition broken_resp :: response where
  "broken_resp =
     \<lparr>StatusCode = 200, response.Header = Map.empty,
      response.Body = \<lparr>data = ''par'', fail = Some (ReadError ''connection reset'')\<rparr>\<rparr>"

text \<open>
  Error bodies: one with a third member whose key is \<^verbatim>\<open>error_summary\<close> up to case, and
  one with the two members in the other order and a member that belongs to no field.
\<close>

definition shadowed_json :: string where
  \<open>shadowed_json =
     ''{"error_summary":"conflict","error":{"reason":"x"},"Error_Summary":"boom"}''\<close>

definition shadowed_resp :: response where
  "shadowed_resp =
     \<lparr>StatusCode = 409, response.Header = Map.empty, response.Body = complete shadowed_json\<rparr>"

definition swapped_json :: string where
  \<open>swapped_json = ''{"error":{"reason":"x"},"status":409,"error_summary":"conflict"}''\<close>

definition swapped_resp :: response where
  "swapped_resp =
     \<lparr>StatusCode = 409, response.Header = Map.empty, response.Body = complete swapped_json\<rparr>"

text \<open>
  The key of a member goes to a field of \<^verbatim>\<open>APIError\<close>: it is \<^verbatim>\<open>error_summary\<close> or
  \<^verbatim>\<open>error\<close> when the case of letters is ignored.
\<close>

definition is_APIError_key :: "string \<Rightarrow> bool" where
  "is_APIError_key k =
     (foldName k = foldName ''error_summary'' \<or> foldName k = foldName ''error'')"

text \<open>A list body that repeats a key: two identifiers, then one, then two \<^verbatim>\<open>null\<close>s.\<close>

definition repeated_json :: string where
  \<open>repeated_json = ''{"doc_ids":["a","b"],"doc_ids":["c"],"doc_ids":[null,null]}''\<close>

text \<open>
  The values of \<^verbatim>\<open>ListPaperDocsArgs\<close> that the specification calls valid: each of the
  three selectors is left out (the empty string) or is one of the constants of the source;
  the limit is any 32-bit integer.
\<close>

definition valid_ListPaperDocsArgs :: "ListPaperDocsArgs \<Rightarrow> bool" where
  "valid_ListPaperDocsArgs a =
     (FilterBy a \<in> {[], ListPaperDocsFilterByAccessed, ListPaperDocsFilterByModified,
                     ListPaperDocsFilterByCreated}
      \<and> SortBy a \<in> {[], ListPaperDocsSortByAccessed, ListPaperDocsSortByModified,
                      ListPaperDocsSortByCreated}
      \<and> SortOrder a \<in> {[], ListPaperDocsSortOrderAsc, ListPaperDocsSortOrderDesc})"

definition args_accessed_100 :: ListPaperDocsArgs where
  "args_accessed_100 =
     \<lparr>FilterBy = ListPaperDocsFilterByAccessed, SortBy = [],
      SortOrder = ListPaperDocsSortOrderDesc, Limit = 100\<rparr>"

definition args_accessed_100_json :: string where
  \<open>args_accessed_100_json =
     ''{"filter_by":"accessed","sort_order":"descending","limit":100}''\<close>

text \<open>
  The text \<open>t\<close> is the text of the value \<open>v\<close> of a member of an object: read after the
  key and the colon, and followed by a comma or by the closing brace, it leaves the scanner
  behind the member, with \<open>v\<close> as the value of the key.
\<close>

definition scans_as :: "string \<Rightarrow> json \<Rightarrow> bool" where
  "scans_as t v =
     (\<forall>kvs k st c rest.
        c = CHR '','' \<or> c = CHR ''}'' \<longrightarrow>
        scan BeginValue (FValue kvs k # st) (t @ c # rest)
          = scan EndValue (FKey ((k, v) # kvs) # st) (c # rest))"

section \<open>The requests that are sent\<close>

lemma canon_Authorization: "CanonicalMIMEHeaderKey ''Authorization'' = ''Authorization''"
  by code_simp

lemma canon_Content_Type: "CanonicalMIMEHeaderKey ''Content-Type'' = ''Content-Type''"
  by code_simp

lemma canon_Arg: "CanonicalMIMEHeaderKey ''Dropbox-API-Arg'' = ''Dropbox-Api-Arg''"
  by code_simp

lemma canon_Result: "CanonicalMIMEHeaderKey ''Dropbox-API-Result'' = ''Dropbox-Api-Result''"
  by code_simp

lemma rpc_sent:
  "marshal inp = Inr body \<Longrightarrow>
   fst (rpc c url marshal inp st out) =
     [\<lparr>Method = ''POST'', URL = url,
       request.Header = [''Authorization'' \<mapsto> [''Bearer '' @ Token c],
                         ''Content-Type'' \<mapsto> [''application/json'']],
       request.Body = body\<rparr>]"
  by (simp add: rpc_def NewRequest_def Set_def canon_Authorization canon_Content_Type Let_def
        split: sum.splits prod.splits)

lemma content_sent:
  "marshal inp = Inr body \<Longrightarrow>
   fst (content c url marshal inp st out) =
     [\<lparr>Method = ''POST'', URL = url,
       request.Header = [''Authorization'' \<mapsto> [''Bearer '' @ Token c],
                         ''Dropbox-Api-Arg'' \<mapsto> [body]],
       request.Body = body\<rparr>]"
  by (simp add: content_def NewRequest_def Set_def canon_Authorization canon_Arg Let_def
        split: sum.splits prod.splits option.splits)

lemma Marshal_ListPaperDocsArgs_total: "\<exists>body. Marshal_ListPaperDocsArgs inp = Inr body"
  by (simp add: Marshal_ListPaperDocsArgs_def split: option.splits)

lemma Marshal_PaperDocExport_total: "\<exists>body. Marshal_PaperDocExport inp = Inr body"
  by (simp add: Marshal_PaperDocExport_def split: option.splits)

lemma Marshal_RefPaperDoc_total: "\<exists>body. Marshal_RefPaperDoc inp = Inr body"
  by (simp add: Marshal_RefPaperDoc_def split: option.splits)

lemma fst_DownloadDoc:
  "fst (DownloadDoc c inp) =
   fst (content c ''https://api.dropboxapi.com/2/paper/docs/download''
          Marshal_PaperDocExport inp store_PaperDocExportResult zero_PaperDocExportResult)"
  by (simp add: DownloadDoc_def Let_def split: prod.splits)

lemma Marshal_export_d1:
  "Marshal_PaperDocExport (Some export_d1) =
     Inr export_d1_json"
  by (simp add: Marshal_PaperDocExport_def export_d1_def ExportFormatMarkdown_def
        export_d1_json_def marshal_struct_def member_def appendString_def htmlSafe_def byte_def)

text \<open>
  C1 (as stated, refuted). The claim says that the request of a content call carries the
  serialized JSON only in the \<^verbatim>\<open>Dropbox-API-Arg\<close> header, with an empty body. The source
  builds the request with \<^verbatim>\<open>bytes.NewReader(body)\<close>: for the export of document \<open>d1\<close>
  as markdown, the body of the request is the JSON text
  \<^verbatim>\<open>{"doc_id":"d1","export_format":"markdown"}\<close>, not the empty body.
\<close>

theorem content_body_not_empty:
  "map request.Body (fst (DownloadDoc offline (Some export_d1))) =
     [export_d1_json]
   \<and> export_d1_json \<noteq> []"
  by (simp add: fst_DownloadDoc
        content_sent [of Marshal_PaperDocExport "Some export_d1", OF Marshal_export_d1])
     (simp add: export_d1_json_def)

text \<open>
  C1 (amended). Every content call (\<open>DownloadDoc\<close>) hands the transport one request: a
  POST to the download endpoint whose only headers are \<^verbatim>\<open>Authorization\<close> and
  \<^verbatim>\<open>Dropbox-API-Arg\<close>, the latter holding the serialized JSON of the request value; no
  \<^verbatim>\<open>Content-Type\<close> header is set; and the body of the request is that same serialized JSON.
\<close>

theorem content_request_shape:
  "\<exists>body req.
     Marshal_PaperDocExport inp = Inr body
     \<and> fst (DownloadDoc c inp) = [req]
     \<and> Method req = ''POST''
     \<and> URL req = ''https://api.dropboxapi.com/2/paper/docs/download''
     \<and> Get (request.Header req) ''Dropbox-API-Arg'' = body
     \<and> request.Header req (CanonicalMIMEHeaderKey ''Content-Type'') = None
     \<and> dom (request.Header req) = {''Authorization'', ''Dropbox-Api-Arg''}
     \<and> request.Body req = body"
proof -
  obtain body where b: "Marshal_PaperDocExport inp = Inr body"
    using Marshal_PaperDocExport_total by blast
  show ?thesis
    using b by (auto simp add: fst_DownloadDoc content_sent [of Marshal_PaperDocExport inp, OF b] Get_def canon_Arg canon_Content_Type)
qed

text \<open>
  C5. Each of the three public operations hands the transport exactly one request, and that
  request carries the header \<^verbatim>\<open>Authorization: Bearer <token>\<close> with the token the client
  was constructed with, whatever the arguments and whatever the network answers.
\<close>

theorem every_request_carries_bearer_token:
  "(\<exists>req. fst (ListDocs (NewClient net token) a) = [req]
          \<and> request.Header req ''Authorization'' = Some [''Bearer '' @ token]
          \<and> Get (request.Header req) ''Authorization'' = ''Bearer '' @ token)
   \<and> (\<exists>req. fst (DownloadDoc (NewClient net token) d) = [req]
          \<and> request.Header req ''Authorization'' = Some [''Bearer '' @ token]
          \<and> Get (request.Header req) ''Authorization'' = ''Bearer '' @ token)
   \<and> (\<exists>req. fst (GetDocFolderInfo (NewClient net token) r) = [req]
          \<and> request.Header req ''Authorization'' = Some [''Bearer '' @ token]
          \<and> Get (request.Header req) ''Authorization'' = ''Bearer '' @ token)"
proof -
  obtain b1 where b1: "Marshal_ListPaperDocsArgs a = Inr b1"
    using Marshal_ListPaperDocsArgs_total by blast
  obtain b2 where b2: "Marshal_PaperDocExport d = Inr b2"
    using Marshal_PaperDocExport_total by blast
  obtain b3 where b3: "Marshal_RefPaperDoc r = Inr b3"
    using Marshal_RefPaperDoc_total by blast
  have 1: "\<exists>req. fst (ListDocs (NewClient net token) a) = [req]
          \<and> request.Header req ''Authorization'' = Some [''Bearer '' @ token]
          \<and> Get (request.Header req) ''Authorization'' = ''Bearer '' @ token"
    by (simp add: ListDocs_def Let_def rpc_sent [of Marshal_ListPaperDocsArgs a, OF b1] Get_def canon_Authorization NewClient_def)
  have 2: "\<exists>req. fst (DownloadDoc (NewClient net token) d) = [req]
          \<and> request.Header req ''Authorization'' = Some [''Bearer '' @ token]
          \<and> Get (request.Header req) ''Authorization'' = ''Bearer '' @ token"
    by (simp add: fst_DownloadDoc content_sent [of Marshal_PaperDocExport d, OF b2] Get_def canon_Authorization NewClient_def)
  have 3: "\<exists>req. fst (GetDocFolderInfo (NewClient net token) r) = [req]
          \<and> request.Header req ''Authorization'' = Some [''Bearer '' @ token]
          \<and> Get (request.Header req) ''Authorization'' = ''Bearer '' @ token"
    by (simp add: GetDocFolderInfo_def Let_def rpc_sent [of Marshal_RefPaperDoc r, OF b3] Get_def canon_Authorization
          NewClient_def)
  from 1 2 3 show ?thesis by blast
qed

section \<open>Evaluating the examples\<close>

lemma scan_has_more:
  "scan BeginValue [] has_more_json =
     ScanValue (JObject [(''doc_ids'', JArray [JString ''a'', JString ''b'']),
        (''cursor'', JObject [(''value'', JString ''v''), (''expiration'', JString ''e'')]),
        (''has_more'', JBool True)]) []"
  by code_simp

lemma scan_conflict:
  "scan BeginValue [] conflict_json =
     ScanValue (JObject [(''error_summary'', JString ''conflict''),
        (''error'', JObject [(''reason'', JString ''x'')])]) []"
  by code_simp

lemma scan_result:
  "scan BeginValue [] result_json =
     ScanValue (JObject [(''owner'', JString ''u1''), (''title'', JString ''Doc''),
        (''revision'', JNumber ''3''), (''mime_type'', JString ''text/markdown'')]) []"
  by code_simp

lemma scan_truncated:
  "scan BeginValue [] truncated_json = ScanMore EndValue [FKey [(''owner'', JString ''u1'')]]"
  by code_simp

lemma scan_misfit:
  "scan BeginValue [] misfit_json =
     ScanValue (JObject [(''doc_ids'', JArray [JString ''a'']), (''cursor'', JNumber ''5'')]) []"
  by code_simp

lemma scan_upper_summary:
  "scan BeginValue [] upper_summary_json =
     ScanValue (JObject [(''Error_Summary'', JString ''boom'')]) []"
  by code_simp

lemma scan_upper_error:
  "scan BeginValue [] upper_error_json = ScanValue (JObject [(''ERROR'', JNumber ''5'')]) []"
  by code_simp

lemma scan_empty_object: "scan BeginValue [] ''{}'' = ScanValue (JObject []) []"
  by code_simp

lemma key_doc_ids: "field_of_key ListPaperDocsResponse_fields ''doc_ids'' = Some ''doc_ids''"
  by code_simp

lemma key_cursor: "field_of_key ListPaperDocsResponse_fields ''cursor'' = Some ''cursor''"
  by code_simp

lemma key_has_more: "field_of_key ListPaperDocsResponse_fields ''has_more'' = None"
  by code_simp

lemma key_value: "field_of_key Cursor_fields ''value'' = Some ''value''"
  by code_simp

lemma key_expiration: "field_of_key Cursor_fields ''expiration'' = Some ''expiration''"
  by code_simp

lemma key_error_summary: "field_of_key APIError_fields ''error_summary'' = Some ''error_summary''"
  by code_simp

lemma key_error: "field_of_key APIError_fields ''error'' = Some ''error''"
  by code_simp

lemma key_Error_Summary: "field_of_key APIError_fields ''Error_Summary'' = Some ''error_summary''"
  by code_simp

lemma key_ERROR: "field_of_key APIError_fields ''ERROR'' = Some ''error''"
  by code_simp

lemma key_owner: "field_of_key PaperDocExportResult_fields ''owner'' = Some ''owner''"
  by code_simp

lemma key_title: "field_of_key PaperDocExportResult_fields ''title'' = Some ''title''"
  by code_simp

lemma key_revision: "field_of_key PaperDocExportResult_fields ''revision'' = Some ''revision''"
  by code_simp

lemma key_mime_type: "field_of_key PaperDocExportResult_fields ''mime_type'' = Some ''mime_type''"
  by code_simp

lemma store_int_3: "store_int (JNumber ''3'') (0 :: 64 word) = (3, None)"
  by (simp add: store_int_def ParseInt_def digits_value_def isDigit_def byte_def)

lemma readValue_complete:
  "scan BeginValue [] s = ScanValue v rest \<Longrightarrow> readValue (complete s) = Inr v"
  by (simp add: readValue_def complete_def)

lemma checkValid_whole: "scan BeginValue [] s = ScanValue v [] \<Longrightarrow> checkValid s = Inr v"
  by (simp add: checkValid_def)

lemma Decode_has_more:
  "Decode store_ListPaperDocsResponse (complete has_more_json) zero_ListPaperDocsResponse =
     (\<lparr>DocIDs = Some [''a'', ''b''], Cursor = \<lparr>Value = ''v'', Expiration = ''e''\<rparr>,
       HasMore = False\<rparr>, None)"
  by (simp add: Decode_def readValue_complete [OF scan_has_more] store_ListPaperDocsResponse_def
        store_struct_def key_doc_ids key_cursor key_has_more key_value key_expiration
        ListPaperDocsResponse_field_def store_slice_def store_Cursor_def Cursor_field_def
        zero_ListPaperDocsResponse_def zero_Cursor_def saveError_def Let_def)

lemma Decode_misfit:
  "Decode store_ListPaperDocsResponse (complete misfit_json) zero_ListPaperDocsResponse =
     (\<lparr>DocIDs = Some [''a''], Cursor = zero_Cursor, HasMore = False\<rparr>,
      Some (UnmarshalTypeError ''number''))"
  by (simp add: Decode_def readValue_complete [OF scan_misfit] store_ListPaperDocsResponse_def
        store_struct_def key_doc_ids key_cursor
        ListPaperDocsResponse_field_def store_slice_def store_Cursor_def
        zero_ListPaperDocsResponse_def saveError_def Let_def)

lemma decode_apierr_conflict:
  "decode_apierr (complete conflict_json) =
     RemoteError \<lparr>Summary = ''conflict'', Metadata = Some [''reason'' \<mapsto> ''x'']\<rparr>"
  by (simp add: decode_apierr_def Decode_def readValue_complete [OF scan_conflict]
        store_APIError_def store_struct_def key_error_summary key_error APIError_field_def
        store_map_def zero_APIError_def saveError_def)

lemma decode_apierr_upper_summary:
  "decode_apierr (complete upper_summary_json) =
     RemoteError \<lparr>Summary = ''boom'', Metadata = None\<rparr>"
  by (simp add: decode_apierr_def Decode_def readValue_complete [OF scan_upper_summary]
        store_APIError_def store_struct_def key_Error_Summary APIError_field_def
        zero_APIError_def saveError_def)

lemma decode_apierr_upper_error:
  "decode_apierr (complete upper_error_json) = UnmarshalTypeError ''number''"
  by (simp add: decode_apierr_def Decode_def readValue_complete [OF scan_upper_error]
        store_APIError_def store_struct_def key_ERROR APIError_field_def store_map_def
        zero_APIError_def saveError_def)

lemma decode_apierr_empty_object:
  "decode_apierr (complete ''{}'') = RemoteError zero_APIError"
  by (simp add: decode_apierr_def Decode_def readValue_complete [OF scan_empty_object]
        store_APIError_def store_struct_def)

lemma Unmarshal_result:
  "Unmarshal store_PaperDocExportResult result_json zero_PaperDocExportResult =
     (\<lparr>Owner = ''u1'', Title = ''Doc'', Revision = 3, MIME = ''text/markdown''\<rparr>, None)"
  by (simp add: Unmarshal_def checkValid_whole [OF scan_result] store_PaperDocExportResult_def
        store_struct_def key_owner key_title key_revision key_mime_type
        PaperDocExportResult_field_def store_int_3 zero_PaperDocExportResult_def saveError_def)

lemma Unmarshal_truncated:
  "Unmarshal store_PaperDocExportResult truncated_json zero_PaperDocExportResult =
     (zero_PaperDocExportResult, Some SyntaxError)"
  by (simp add: Unmarshal_def checkValid_def scan_truncated)

section \<open>Calls against a server that always gives the same answer\<close>

lemma snd_rpc_mock:
  "HTTP c = mock resp \<Longrightarrow> marshal inp = Inr body \<Longrightarrow>
   snd (rpc c url marshal inp st out) =
     (if StatusCode resp \<noteq> StatusOK then (out, Some (decode_apierr (response.Body resp)))
      else Decode st (response.Body resp) out)"
  by (simp add: rpc_def mock_def Let_def split: prod.splits)

lemma snd_content_mock:
  "HTTP c = mock resp \<Longrightarrow> marshal inp = Inr body \<Longrightarrow>
   snd (content c url marshal inp st out) =
     (if StatusCode resp \<noteq> StatusOK
      then (out, None, Some (decode_apierr (response.Body resp)))
      else if Get (response.Header resp) ''Dropbox-API-Result'' = []
      then (out, Some (data (response.Body resp)), fail (response.Body resp))
      else
        (case Unmarshal st (Get (response.Header resp) ''Dropbox-API-Result'') out of
           (out', Some err) \<Rightarrow> (out', None, Some err)
         | (out', None) \<Rightarrow> (out', Some (data (response.Body resp)), fail (response.Body resp))))"
  by (simp add: content_def mock_def Let_def ReadAll_def split: prod.splits option.splits)

lemma snd_ListDocs_mock:
  "HTTP c = mock resp \<Longrightarrow>
   snd (ListDocs c a) =
     (if StatusCode resp \<noteq> StatusOK
      then (zero_ListPaperDocsResponse, Some (decode_apierr (response.Body resp)))
      else Decode store_ListPaperDocsResponse (response.Body resp) zero_ListPaperDocsResponse)"
proof -
  assume h: "HTTP c = mock resp"
  obtain b where b: "Marshal_ListPaperDocsArgs a = Inr b"
    using Marshal_ListPaperDocsArgs_total by blast
  show ?thesis
    by (simp add: ListDocs_def Let_def snd_rpc_mock [of c resp Marshal_ListPaperDocsArgs a, OF h b])
qed

lemma snd_GetDocFolderInfo_mock:
  "HTTP c = mock resp \<Longrightarrow>
   snd (GetDocFolderInfo c r) =
     (if StatusCode resp \<noteq> StatusOK
      then (zero_FoldersContainingPaperDoc, Some (decode_apierr (response.Body resp)))
      else Decode store_FoldersContainingPaperDoc (response.Body resp)
             zero_FoldersContainingPaperDoc)"
proof -
  assume h: "HTTP c = mock resp"
  obtain b where b: "Marshal_RefPaperDoc r = Inr b"
    using Marshal_RefPaperDoc_total by blast
  show ?thesis
    by (simp add: GetDocFolderInfo_def Let_def snd_rpc_mock [of c resp Marshal_RefPaperDoc r, OF h b])
qed

lemma snd_DownloadDoc:
  "snd (DownloadDoc c inp) =
   snd (content c ''https://api.dropboxapi.com/2/paper/docs/download''
          Marshal_PaperDocExport inp store_PaperDocExportResult zero_PaperDocExportResult)"
  by (simp add: DownloadDoc_def Let_def split: prod.splits)

lemma snd_DownloadDoc_mock:
  "HTTP c = mock resp \<Longrightarrow>
   snd (DownloadDoc c d) =
     (if StatusCode resp \<noteq> StatusOK
      then (zero_PaperDocExportResult, None, Some (decode_apierr (response.Body resp)))
      else if Get (response.Header resp) ''Dropbox-API-Result'' = []
      then (zero_PaperDocExportResult, Some (data (response.Body resp)),
            fail (response.Body resp))
      else
        (case Unmarshal store_PaperDocExportResult
                (Get (response.Header resp) ''Dropbox-API-Result'') zero_PaperDocExportResult of
           (out', Some err) \<Rightarrow> (out', None, Some err)
         | (out', None) \<Rightarrow> (out', Some (data (response.Body resp)), fail (response.Body resp))))"
proof -
  assume h: "HTTP c = mock resp"
  obtain b where b: "Marshal_PaperDocExport d = Inr b"
    using Marshal_PaperDocExport_total by blast
  show ?thesis
    unfolding snd_DownloadDoc
    by (rule snd_content_mock [of c resp Marshal_PaperDocExport d, OF h b])
qed

lemma HTTP_NewClient: "HTTP (NewClient net token) = net"
  by (simp add: NewClient_def)

lemma Get_result_hello: "Get (response.Header hello_resp) ''Dropbox-API-Result'' = result_json"
  by (simp add: Get_def canon_Result hello_resp_def)

lemma result_json_not_empty: "result_json \<noteq> []"
  by (simp add: result_json_def)

lemma Get_result_bad:
  "Get (response.Header bad_result_resp) ''Dropbox-API-Result'' = truncated_json"
  by (simp add: Get_def canon_Result bad_result_resp_def)

lemma truncated_json_not_empty: "truncated_json \<noteq> []"
  by (simp add: truncated_json_def)

text \<open>
  C4 (the code misses the claim). The claim: a 200 response to a list-documents call whose
  body has the keys \<^verbatim>\<open>doc_ids\<close>, \<^verbatim>\<open>cursor\<close> and \<^verbatim>\<open>has_more\<close> comes back
  field for field, so \<^verbatim>\<open>"has_more": true\<close> gives a has-more flag that is true. In the
  source the tag of \<^verbatim>\<open>HasMore\<close> lacks its colon, so the key \<^verbatim>\<open>has_more\<close> belongs to
  no field: for the body
  \<^verbatim>\<open>{"doc_ids":["a","b"],"cursor":{"value":"v","expiration":"e"},"has_more":true}\<close>
  the call succeeds with the document identifiers and the cursor of the body, and with
  \<^verbatim>\<open>HasMore\<close> false.
\<close>
theorem has_more_is_dropped:
  "snd (ListDocs \<lparr>Token = t, HTTP = mock has_more_resp\<rparr> a) =
     (\<lparr>DocIDs = Some [''a'', ''b''], Cursor = \<lparr>Value = ''v'', Expiration = ''e''\<rparr>,
       HasMore = False\<rparr>, None)"
  by (simp add: snd_ListDocs_mock [of _ has_more_resp] Decode_has_more)
     (simp add: has_more_resp_def StatusOK_def Decode_has_more)

text \<open>
  C7. A download call that is answered with status 200, the body \<^verbatim>\<open>hello world\<close> and the
  header \<^verbatim>\<open>Dropbox-API-Result\<close> set to
  \<^verbatim>\<open>{"owner":"u1","title":"Doc","revision":3,"mime_type":"text/markdown"}\<close> succeeds: the
  metadata has revision 3 (and the owner, title and MIME type of the header), and the
  content is exactly the bytes \<^verbatim>\<open>hello world\<close>.
\<close>
theorem download_hello_world:
  "snd (DownloadDoc \<lparr>Token = t, HTTP = mock hello_resp\<rparr> d) =
     (\<lparr>Owner = ''u1'', Title = ''Doc'', Revision = 3, MIME = ''text/markdown''\<rparr>,
      Some ''hello world'', None)"
  by (simp add: snd_DownloadDoc_mock [of _ hello_resp] Get_result_hello result_json_not_empty
        Unmarshal_result)
     (simp add: hello_resp_def StatusOK_def complete_def)

text \<open>
  C2 (as stated, refuted). The claim says that on a 200 response the body is read and
  returned even when the decoding of the \<^verbatim>\<open>Dropbox-API-Result\<close> header fails. For a 200
  response with the body \<^verbatim>\<open>data\<close> and the header \<^verbatim>\<open>{"owner":"u1"\<close> (not a complete
  JSON text), \<open>content\<close> returns at the failed \<^verbatim>\<open>json.Unmarshal\<close>: the call gives the
  syntax error and the \<^verbatim>\<open>nil\<close> content, the body is not read.
\<close>
theorem content_not_read_when_metadata_fails:
  "snd (DownloadDoc (NewClient (mock bad_result_resp) ''tok'') (Some export_d1)) =
     (zero_PaperDocExportResult, None, Some SyntaxError)
   \<and> StatusCode bad_result_resp = 200
   \<and> data (response.Body bad_result_resp) = ''data''"
  by (simp add: snd_DownloadDoc_mock [of _ bad_result_resp] HTTP_NewClient Get_result_bad
        truncated_json_not_empty Unmarshal_truncated)
     (simp add: bad_result_resp_def StatusOK_def complete_def)

text \<open>
  C3 (as stated, refuted). The claim says that a failed metadata call leaves the destination
  at its zero value. For a 200 response with the body \<^verbatim>\<open>{"doc_ids":["a"],"cursor":5}\<close>
  the call fails (a number does not fit the cursor, a struct), and the returned
  \<^verbatim>\<open>ListPaperDocsResponse\<close> holds the document identifier \<open>a\<close>: it is not the zero value.
\<close>
theorem failed_list_is_partly_populated:
  "snd (ListDocs (NewClient (mock misfit_resp) ''tok'') None) =
     (\<lparr>DocIDs = Some [''a''], Cursor = zero_Cursor, HasMore = False\<rparr>,
      Some (UnmarshalTypeError ''number''))
   \<and> \<lparr>DocIDs = Some [''a''], Cursor = zero_Cursor, HasMore = False\<rparr> \<noteq> zero_ListPaperDocsResponse"
proof (intro conjI)
  show "snd (ListDocs (NewClient (mock misfit_resp) ''tok'') None) =
     (\<lparr>DocIDs = Some [''a''], Cursor = zero_Cursor, HasMore = False\<rparr>,
      Some (UnmarshalTypeError ''number''))"
    by (simp add: snd_ListDocs_mock [of _ misfit_resp] HTTP_NewClient)
       (simp add: misfit_resp_def StatusOK_def Decode_misfit)
  show "\<lparr>DocIDs = Some [''a''], Cursor = zero_Cursor, HasMore = False\<rparr>
          \<noteq> zero_ListPaperDocsResponse"
    by (simp add: zero_ListPaperDocsResponse_def)
qed

text \<open>
  C10 (as stated, refuted). The claim says that a non-200 response whose body is a JSON
  object without the keys \<^verbatim>\<open>error_summary\<close> and \<^verbatim>\<open>error\<close> gives a \<^verbatim>\<open>RemoteError\<close>
  with an empty summary and an empty mapping, never an encoding error. Keys are matched to
  fields without regard to case: the body \<^verbatim>\<open>{"Error_Summary":"boom"}\<close> has neither key
  and gives the summary \<open>boom\<close>, and the body \<^verbatim>\<open>{"ERROR":5}\<close> has neither key and
  gives an \<^verbatim>\<open>UnmarshalTypeError\<close>.
\<close>
theorem keys_match_without_case:
  "snd (snd (ListDocs (NewClient (mock upper_summary_resp) ''tok'') None)) =
     Some (RemoteError \<lparr>Summary = ''boom'', Metadata = None\<rparr>)
   \<and> snd (snd (ListDocs (NewClient (mock upper_error_resp) ''tok'') None)) =
     Some (UnmarshalTypeError ''number'')"
  by (simp add: snd_ListDocs_mock [of _ upper_summary_resp] snd_ListDocs_mock [of _ upper_error_resp]
        HTTP_NewClient)
     (simp add: upper_summary_resp_def upper_error_resp_def StatusOK_def
        decode_apierr_upper_summary decode_apierr_upper_error)

lemma scan_repeated:
  "scan BeginValue [] repeated_json =
     ScanValue (JObject [(''doc_ids'', JArray [JString ''a'', JString ''b'']),
        (''doc_ids'', JArray [JString ''c'']), (''doc_ids'', JArray [JNull, JNull])]) []"
  by code_simp

text \<open>
  A key that is repeated: the second array shortens the slice and leaves \<open>b\<close> in the
  backing array, and the \<^verbatim>\<open>null\<close>s of the third array store nothing into \<open>c\<close> and \<open>b\<close>.
\<close>

lemma Decode_repeated:
  "Decode store_ListPaperDocsResponse (complete repeated_json) zero_ListPaperDocsResponse =
     (\<lparr>DocIDs = Some [''c'', ''b''], Cursor = zero_Cursor, HasMore = False\<rparr>, None)"
  by (simp add: Decode_def readValue_complete [OF scan_repeated] store_ListPaperDocsResponse_def
        store_struct_def key_doc_ids ListPaperDocsResponse_field_def store_slice_def
        zero_ListPaperDocsResponse_def saveError_def Let_def)

section \<open>Failures of a metadata call\<close>

lemma store_struct_misfit:
  "v \<noteq> JNull \<Longrightarrow> \<forall>kvs. v \<noteq> JObject kvs \<Longrightarrow>
   store_struct names field v cur = (cur, Some (UnmarshalTypeError (describe v)))"
  by (cases v) (simp_all add: store_struct_def)

lemma store_ListPaperDocsResponse_misfit:
  "v \<noteq> JNull \<Longrightarrow> \<forall>kvs. v \<noteq> JObject kvs \<Longrightarrow>
   store_ListPaperDocsResponse v r = (r, Some (UnmarshalTypeError (describe v)))"
  by (simp add: store_ListPaperDocsResponse_def store_struct_misfit)

lemma store_FoldersContainingPaperDoc_misfit:
  "v \<noteq> JNull \<Longrightarrow> \<forall>kvs. v \<noteq> JObject kvs \<Longrightarrow>
   store_FoldersContainingPaperDoc v r = (r, Some (UnmarshalTypeError (describe v)))"
  by (simp add: store_FoldersContainingPaperDoc_def store_struct_misfit)

lemma snd_rpc_answer:
  assumes "marshal inp = Inr body" and "fst (rpc c url marshal inp st out) = [req]"
  shows "snd (rpc c url marshal inp st out) =
     (case HTTP c req of
        Inl err \<Rightarrow> (out, Some err)
      | Inr resp \<Rightarrow>
          if StatusCode resp \<noteq> StatusOK then (out, Some (decode_apierr (response.Body resp)))
          else Decode st (response.Body resp) out)"
proof -
  let ?req = "\<lparr>Method = ''POST'', URL = url,
       request.Header = [''Authorization'' \<mapsto> [''Bearer '' @ Token c],
                         ''Content-Type'' \<mapsto> [''application/json'']],
       request.Body = body\<rparr>"
  have req: "req = ?req"
    using assms(2) rpc_sent [of marshal inp body c url st out, OF assms(1)] by simp
  show ?thesis
    unfolding req using assms(1)
    by (simp add: rpc_def NewRequest_def Set_def canon_Authorization canon_Content_Type Let_def
          split: sum.splits prod.splits)
qed

lemma rpc_no_object:
  assumes m: "marshal inp = Inr body"
    and sent: "fst (rpc c url marshal inp st out) = [req]"
    and no: "gives_no_object (HTTP c req)"
    and st: "\<And>v. v \<noteq> JNull \<Longrightarrow> \<forall>kvs. v \<noteq> JObject kvs \<Longrightarrow>
               st v out = (out, Some (UnmarshalTypeError (describe v)))"
  shows "fst (snd (rpc c url marshal inp st out)) = out
         \<and> snd (snd (rpc c url marshal inp st out)) \<noteq> None"
proof (cases "HTTP c req")
  case (Inl err)
  then show ?thesis by (simp add: snd_rpc_answer [OF m sent])
next
  case (Inr resp)
  show ?thesis
  proof (cases "StatusCode resp = StatusOK")
    case False
    with Inr show ?thesis by (simp add: snd_rpc_answer [OF m sent])
  next
    case True
    show ?thesis
    proof (cases "readValue (response.Body resp)")
      case (Inl e)
      with Inr True show ?thesis by (simp add: snd_rpc_answer [OF m sent] Decode_def)
    next
      case (Inr v)
      with no \<open>HTTP c req = Inr resp\<close> True
      have v: "v \<noteq> JNull" "\<forall>kvs. v \<noteq> JObject kvs"
        by (auto simp add: gives_no_object_def split: json.splits)
      from Inr \<open>HTTP c req = Inr resp\<close> True show ?thesis
        by (simp add: snd_rpc_answer [OF m sent] Decode_def st [OF v])
    qed
  qed
qed

text \<open>
  C3 (amended). For each metadata call (\<open>ListDocs\<close>, and likewise
  \<open>GetDocFolderInfo\<close>, each on its own): when the transport fails (a cancelled context
  included), or the status of the response is not 200, or the body of a 200 response holds
  no complete JSON value, or holds a JSON value that is neither an object nor \<^verbatim>\<open>null\<close>,
  the call fails and the destination it returns is the zero value. Nothing is promised for
  the one failure that is left, a 200 body that is a JSON object with a member that does not
  fit its field.
\<close>
theorem metadata_failure_before_storing:
  "(fst (ListDocs c a) = [req] \<longrightarrow> gives_no_object (HTTP c req) \<longrightarrow>
      fst (snd (ListDocs c a)) = zero_ListPaperDocsResponse
      \<and> snd (snd (ListDocs c a)) \<noteq> None)
   \<and> (fst (GetDocFolderInfo c' r) = [req'] \<longrightarrow> gives_no_object (HTTP c' req') \<longrightarrow>
      fst (snd (GetDocFolderInfo c' r)) = zero_FoldersContainingPaperDoc
      \<and> snd (snd (GetDocFolderInfo c' r)) \<noteq> None)"
proof (intro conjI impI)
  obtain b1 where b1: "Marshal_ListPaperDocsArgs a = Inr b1"
    using Marshal_ListPaperDocsArgs_total by blast
  assume "fst (ListDocs c a) = [req]" and no: "gives_no_object (HTTP c req)"
  then have sent: "fst (rpc c ''https://api.dropboxapi.com/2/paper/docs/list''
      Marshal_ListPaperDocsArgs a store_ListPaperDocsResponse zero_ListPaperDocsResponse) = [req]"
    by (simp add: ListDocs_def Let_def)
  from rpc_no_object [of Marshal_ListPaperDocsArgs a, OF b1 sent no
      store_ListPaperDocsResponse_misfit]
  show "fst (snd (ListDocs c a)) = zero_ListPaperDocsResponse"
    and "snd (snd (ListDocs c a)) \<noteq> None"
    by (simp_all add: ListDocs_def Let_def)
next
  obtain b2 where b2: "Marshal_RefPaperDoc r = Inr b2"
    using Marshal_RefPaperDoc_total by blast
  assume "fst (GetDocFolderInfo c' r) = [req']" and no: "gives_no_object (HTTP c' req')"
  then have sent: "fst (rpc c' ''https://api.dropboxapi.com/2/paper/docs/get_folder_info''
      Marshal_RefPaperDoc r store_FoldersContainingPaperDoc zero_FoldersContainingPaperDoc)
      = [req']"
    by (simp add: GetDocFolderInfo_def Let_def)
  from rpc_no_object [of Marshal_RefPaperDoc r, OF b2 sent no
      store_FoldersContainingPaperDoc_misfit]
  show "fst (snd (GetDocFolderInfo c' r)) = zero_FoldersContainingPaperDoc"
    and "snd (snd (GetDocFolderInfo c' r)) \<noteq> None"
    by (simp_all add: GetDocFolderInfo_def Let_def)
qed

lemma scan_folders:
  "scan BeginValue [] folders_json =
     ScanValue (JObject [(''FolderSharingPolicyType'', JString ''team''),
        (''Folders'', JArray [JObject [(''id'', JString ''1''), (''name'', JString ''Eng'')]])]) []"
  by code_simp

lemma key_FolderSharingPolicyType:
  "field_of_key FoldersContainingPaperDoc_fields ''FolderSharingPolicyType''
     = Some ''FolderSharingPolicyType''"
  by code_simp

lemma key_Folders: "field_of_key FoldersContainingPaperDoc_fields ''Folders'' = Some ''Folders''"
  by code_simp

lemma key_id: "field_of_key Folder_fields ''id'' = Some ''id''"
  by code_simp

lemma key_name: "field_of_key Folder_fields ''name'' = Some ''name''"
  by code_simp

lemma store_Folder_Eng:
  "store_Folder (JObject [(''id'', JString ''1''), (''name'', JString ''Eng'')]) zero_Folder =
     (\<lparr>ID = ''1'', Name = ''Eng''\<rparr>, None)"
  by (simp add: store_Folder_def store_struct_def key_id key_name Folder_field_def
        zero_Folder_def saveError_def)

lemma Decode_folders:
  "Decode store_FoldersContainingPaperDoc (complete folders_json) zero_FoldersContainingPaperDoc =
     (\<lparr>FolderSharingPolicyType = FolderSharingPolicyTeam,
       Folders = Some [\<lparr>ID = ''1'', Name = ''Eng''\<rparr>]\<rparr>, None)"
  by (simp add: Decode_def readValue_complete [OF scan_folders]
        store_FoldersContainingPaperDoc_def store_struct_def key_FolderSharingPolicyType
        key_Folders FoldersContainingPaperDoc_field_def store_slice_def store_Folder_Eng
        zero_FoldersContainingPaperDoc_def FolderSharingPolicyTeam_def saveError_def Let_def)

lemma ListDocs_sent:
  "\<exists>body. fst (ListDocs c a) =
     [\<lparr>Method = ''POST'', URL = ''https://api.dropboxapi.com/2/paper/docs/list'',
       request.Header = [''Authorization'' \<mapsto> [''Bearer '' @ Token c],
                         ''Content-Type'' \<mapsto> [''application/json'']],
       request.Body = body\<rparr>]"
proof -
  obtain b where b: "Marshal_ListPaperDocsArgs a = Inr b"
    using Marshal_ListPaperDocsArgs_total by blast
  show ?thesis
    by (simp add: ListDocs_def Let_def rpc_sent [of Marshal_ListPaperDocsArgs a, OF b])
qed

lemma GetDocFolderInfo_sent:
  "\<exists>body. fst (GetDocFolderInfo c r) =
     [\<lparr>Method = ''POST'', URL = ''https://api.dropboxapi.com/2/paper/docs/get_folder_info'',
       request.Header = [''Authorization'' \<mapsto> [''Bearer '' @ Token c],
                         ''Content-Type'' \<mapsto> [''application/json'']],
       request.Body = body\<rparr>]"
proof -
  obtain b where b: "Marshal_RefPaperDoc r = Inr b"
    using Marshal_RefPaperDoc_total by blast
  show ?thesis
    by (simp add: GetDocFolderInfo_def Let_def rpc_sent [of Marshal_RefPaperDoc r, OF b])
qed

lemma list_fails_list:
  "URL req = ''https://api.dropboxapi.com/2/paper/docs/list'' \<Longrightarrow>
   list_fails req = Inr conflict_resp"
  by (simp add: list_fails_def)

lemma folder_url_not_list:
  "''https://api.dropboxapi.com/2/paper/docs/get_folder_info''
     \<noteq> ''https://api.dropboxapi.com/2/paper/docs/list''"
  by simp

lemma list_fails_folder:
  "URL req = ''https://api.dropboxapi.com/2/paper/docs/get_folder_info'' \<Longrightarrow>
   list_fails req = Inr folders_resp"
  using folder_url_not_list by (simp only: list_fails_def if_False)

text \<open>
  On a server whose list endpoint fails, the folder call succeeds.
\<close>

lemma GetDocFolderInfo_list_fails:
  "snd (GetDocFolderInfo (NewClient list_fails ''tok'') None) =
     (\<lparr>FolderSharingPolicyType = FolderSharingPolicyTeam,
       Folders = Some [\<lparr>ID = ''1'', Name = ''Eng''\<rparr>]\<rparr>, None)"
proof -
  let ?c = "NewClient list_fails ''tok''"
  obtain body where sent: "fst (GetDocFolderInfo ?c None) =
     [\<lparr>Method = ''POST'', URL = ''https://api.dropboxapi.com/2/paper/docs/get_folder_info'',
       request.Header = [''Authorization'' \<mapsto> [''Bearer '' @ Token ?c],
                         ''Content-Type'' \<mapsto> [''application/json'']],
       request.Body = body\<rparr>]"
    using GetDocFolderInfo_sent by blast
  obtain b where b: "Marshal_RefPaperDoc None = Inr b"
    using Marshal_RefPaperDoc_total by blast
  have answer: "\<And>req. URL req = ''https://api.dropboxapi.com/2/paper/docs/get_folder_info''
      \<Longrightarrow> HTTP ?c req = Inr folders_resp"
    by (simp add: HTTP_NewClient list_fails_folder)
  have ok: "StatusCode folders_resp = StatusOK" "response.Body folders_resp = complete folders_json"
    by (simp_all add: folders_resp_def StatusOK_def)
  from sent have sent': "fst (rpc ?c ''https://api.dropboxapi.com/2/paper/docs/get_folder_info''
      Marshal_RefPaperDoc None store_FoldersContainingPaperDoc zero_FoldersContainingPaperDoc)
      = [\<lparr>Method = ''POST'', URL = ''https://api.dropboxapi.com/2/paper/docs/get_folder_info'',
       request.Header = [''Authorization'' \<mapsto> [''Bearer '' @ Token ?c],
                         ''Content-Type'' \<mapsto> [''application/json'']],
       request.Body = body\<rparr>]"
    by (simp add: GetDocFolderInfo_def Let_def)
  show ?thesis
    by (simp add: GetDocFolderInfo_def Let_def snd_rpc_answer [OF b sent'] answer ok Decode_folders)
qed

theorem metadata_failure_before_storing_witness:
  "fst (snd (ListDocs (NewClient list_fails ''tok'') None)) = zero_ListPaperDocsResponse
   \<and> snd (snd (ListDocs (NewClient list_fails ''tok'') None)) \<noteq> None
   \<and> snd (snd (GetDocFolderInfo (NewClient list_fails ''tok'') None)) = None
   \<and> fst (snd (GetDocFolderInfo (NewClient (mock five_resp) ''tok'') None))
       = zero_FoldersContainingPaperDoc
   \<and> snd (snd (GetDocFolderInfo (NewClient (mock five_resp) ''tok'') None)) \<noteq> None"
proof -
  let ?c = "NewClient list_fails ''tok''"
  let ?c' = "NewClient (mock five_resp) ''tok''"
  obtain body where sent: "fst (ListDocs ?c None) =
     [\<lparr>Method = ''POST'', URL = ''https://api.dropboxapi.com/2/paper/docs/list'',
       request.Header = [''Authorization'' \<mapsto> [''Bearer '' @ Token ?c],
                         ''Content-Type'' \<mapsto> [''application/json'']],
       request.Body = body\<rparr>]"
    using ListDocs_sent by blast
  have no: "gives_no_object (HTTP ?c \<lparr>Method = ''POST'',
       URL = ''https://api.dropboxapi.com/2/paper/docs/list'',
       request.Header = [''Authorization'' \<mapsto> [''Bearer '' @ Token ?c],
                         ''Content-Type'' \<mapsto> [''application/json'']],
       request.Body = body\<rparr>)"
    by (simp add: HTTP_NewClient list_fails_list gives_no_object_def conflict_resp_def
          StatusOK_def)
  obtain body' where sent': "fst (GetDocFolderInfo ?c' None) =
     [\<lparr>Method = ''POST'', URL = ''https://api.dropboxapi.com/2/paper/docs/get_folder_info'',
       request.Header = [''Authorization'' \<mapsto> [''Bearer '' @ Token ?c'],
                         ''Content-Type'' \<mapsto> [''application/json'']],
       request.Body = body'\<rparr>]"
    using GetDocFolderInfo_sent by blast
  have five: "readValue (complete ''5'') = Inr (JNumber ''5'')"
    by (simp add: readValue_def complete_def step_def stateBeginValue_def isSpace_def
          isDigit_def byte_def)
  have no': "gives_no_object (HTTP ?c' \<lparr>Method = ''POST'',
       URL = ''https://api.dropboxapi.com/2/paper/docs/get_folder_info'',
       request.Header = [''Authorization'' \<mapsto> [''Bearer '' @ Token ?c'],
                         ''Content-Type'' \<mapsto> [''application/json'']],
       request.Body = body'\<rparr>)"
    by (simp add: HTTP_NewClient mock_def gives_no_object_def five_resp_def StatusOK_def five)
  from metadata_failure_before_storing [THEN conjunct1, rule_format, OF sent no]
    metadata_failure_before_storing [THEN conjunct2, rule_format, OF sent' no']
    GetDocFolderInfo_list_fails
  show ?thesis by simp
qed

section \<open>The content of a download\<close>

text \<open>
  C2 (amended). For every content call whose response has status 200: when the
  \<^verbatim>\<open>Dropbox-API-Result\<close> header is absent or empty, or decodes without error, the body is
  read fully and returned as the content bytes (with the error of the read, if the
  connection failed while the body was read); when the decoding of the header fails, the
  call returns that error and the \<^verbatim>\<open>nil\<close> content, and the body is not read.
\<close>
theorem content_follows_metadata:
  assumes "HTTP c = mock resp" and "StatusCode resp = StatusOK"
  shows "snd (snd (DownloadDoc c d)) =
     (let result = Get (response.Header resp) ''Dropbox-API-Result'' in
      if result = [] then (Some (data (response.Body resp)), fail (response.Body resp))
      else
        (case snd (Unmarshal store_PaperDocExportResult result zero_PaperDocExportResult) of
           None \<Rightarrow> (Some (data (response.Body resp)), fail (response.Body resp))
         | Some err \<Rightarrow> (None, Some err)))"
  using assms
  by (simp add: snd_DownloadDoc_mock [of c resp] Let_def split: prod.splits option.splits)

theorem content_follows_metadata_witness:
  "snd (snd (DownloadDoc (NewClient (mock hello_resp) ''tok'') None)) = (Some ''hello world'', None)"
proof -
  have 1: "HTTP (NewClient (mock hello_resp) ''tok'') = mock hello_resp"
    by (rule HTTP_NewClient)
  have 2: "StatusCode hello_resp = StatusOK"
    by (simp add: hello_resp_def StatusOK_def)
  have 3: "data (response.Body hello_resp) = ''hello world''"
    "fail (response.Body hello_resp) = None"
    by (simp_all add: hello_resp_def complete_def)
  show ?thesis
    using content_follows_metadata [OF 1 2, of None]
    by (simp add: Get_result_hello result_json_not_empty Unmarshal_result 3)
qed

text \<open>
  C8 (as stated, refuted). The claim says that a download call answered with status 200 and
  no \<^verbatim>\<open>Dropbox-API-Result\<close> header succeeds with the full body as content. When the
  connection fails while the body is read (here after the three bytes \<^verbatim>\<open>par\<close>),
  \<^verbatim>\<open>ioutil.ReadAll\<close> returns the bytes read so far with its error, and so does the call:
  it does not succeed.
\<close>
theorem download_read_error:
  "snd (DownloadDoc (NewClient (mock broken_resp) ''tok'') (Some export_d1)) =
     (zero_PaperDocExportResult, Some ''par'', Some (ReadError ''connection reset''))
   \<and> StatusCode broken_resp = 200
   \<and> response.Header broken_resp (CanonicalMIMEHeaderKey ''Dropbox-API-Result'') = None"
  by (simp add: snd_DownloadDoc_mock [of _ broken_resp] HTTP_NewClient Get_def)
     (simp add: broken_resp_def StatusOK_def)

text \<open>
  C8 (amended). A download call that is answered with status 200 and no
  \<^verbatim>\<open>Dropbox-API-Result\<close> header returns the zero-valued metadata record, the bytes that
  the body delivers as content, and as its error the error that ended the reading of the
  body: no error, and the bytes of the whole body, when the body arrives in full.
\<close>
theorem download_without_result_header:
  assumes "HTTP c = mock resp" and "StatusCode resp = StatusOK"
    and "response.Header resp (CanonicalMIMEHeaderKey ''Dropbox-API-Result'') = None"
  shows "snd (DownloadDoc c d) =
           (zero_PaperDocExportResult, Some (data (response.Body resp)),
            fail (response.Body resp))"
  using assms by (simp add: snd_DownloadDoc_mock [of c resp] Get_def)

theorem download_without_result_header_witness:
  "snd (DownloadDoc (NewClient (mock data_resp) ''tok'') (Some export_d1)) =
     (zero_PaperDocExportResult, Some ''data'', None)"
proof -
  have 1: "HTTP (NewClient (mock data_resp) ''tok'') = mock data_resp"
    by (rule HTTP_NewClient)
  have 2: "StatusCode data_resp = StatusOK"
    by (simp add: data_resp_def StatusOK_def)
  have 3: "response.Header data_resp (CanonicalMIMEHeaderKey ''Dropbox-API-Result'') = None"
    by (simp add: data_resp_def)
  have 4: "fail (response.Body data_resp) = None" "data (response.Body data_resp) = ''data''"
    by (simp_all add: data_resp_def complete_def)
  show ?thesis
    using download_without_result_header [OF 1 2 3, of "Some export_d1"] by (simp add: 4)
qed

section \<open>Error responses\<close>

lemma store_members_strings:
  "store_members (map (\<lambda>(k, v). (k, JString v)) kvs) m = (m ++ map_of (rev kvs), None)"
proof (induction kvs arbitrary: m)
  case Nil
  show ?case by simp
next
  case (Cons kv kvs)
  obtain k v where kv: "kv = (k, v)" by (cases kv)
  have step: "store_members (map (\<lambda>(k, v). (k, JString v)) (kv # kvs)) m =
      store_members (map (\<lambda>(k, v). (k, JString v)) kvs) (m(k \<mapsto> v))"
    by (simp add: kv saveError_def split: prod.splits)
  have "m(k \<mapsto> v) ++ map_of (rev kvs) = m ++ map_of (rev (kv # kvs))"
    by (simp add: kv)
  then show ?case
    by (simp only: step Cons.IH)
qed

lemma no_field_of_key:
  assumes "foldName k \<noteq> foldName ''error_summary''" and "foldName k \<noteq> foldName ''error''"
  shows "field_of_key APIError_fields k = None"
proof -
  have 1: "k \<noteq> ''error_summary''" "k \<noteq> ''error''"
    using assms by (auto simp del: foldName.simps)
  have 2: "foldName ''error_summary'' \<noteq> foldName k" "foldName ''error'' \<noteq> foldName k"
    using assms by (simp_all del: foldName.simps)
  show ?thesis
    by (simp add: field_of_key_def APIError_fields_def 1 2 del: foldName.simps)
qed

lemma store_fields_no_match:
  "\<forall>k \<in> fst ` set kvs. field_of_key names k = None \<Longrightarrow>
   store_fields names field kvs cur = (cur, None)"
proof (induction kvs)
  case Nil
  show ?case by simp
next
  case (Cons kv kvs)
  obtain k v where kv: "kv = (k, v)" by (cases kv)
  from Cons.prems have k: "field_of_key names k = None"
    by (simp add: kv)
  from Cons.prems have "\<forall>k \<in> fst ` set kvs. field_of_key names k = None"
    by simp
  then have "store_fields names field kvs cur = (cur, None)"
    by (rule Cons.IH)
  then show ?case
    by (simp add: kv k)
qed

lemma decode_apierr_no_match:
  assumes "readValue body = Inr (JObject kvs)"
    and "\<forall>k \<in> fst ` set kvs.
           foldName k \<noteq> foldName ''error_summary'' \<and> foldName k \<noteq> foldName ''error''"
  shows "decode_apierr body = RemoteError zero_APIError"
proof -
  have "\<forall>k \<in> fst ` set kvs. field_of_key APIError_fields k = None"
  proof
    fix k
    assume "k \<in> fst ` set kvs"
    with assms(2)
    have "foldName k \<noteq> foldName ''error_summary'' \<and> foldName k \<noteq> foldName ''error''"
      by (rule bspec)
    then show "field_of_key APIError_fields k = None"
      by (intro no_field_of_key) (rule conjunct1, assumption, rule conjunct2, assumption)
  qed
  then show ?thesis
    using assms(1)
    by (simp add: decode_apierr_def Decode_def store_APIError_def store_struct_def
          store_fields_no_match)
qed

text \<open>
  C10 (amended). When the status of the response is not 200 and the body is a JSON object
  none of whose keys is \<^verbatim>\<open>error_summary\<close> or \<^verbatim>\<open>error\<close> when the case of letters is
  ignored (the way \<^verbatim>\<open>encoding/json\<close> matches keys to fields), each of the three operations
  fails with an \<^verbatim>\<open>APIError\<close> whose summary is the empty string and whose metadata
  mapping is \<^verbatim>\<open>nil\<close>, so has no entry; this error is not an encoding error.
\<close>
theorem unmatched_error_body_gives_empty_RemoteError:
  assumes "HTTP c = mock resp" and "StatusCode resp \<noteq> StatusOK"
    and "readValue (response.Body resp) = Inr (JObject kvs)"
    and "\<forall>k \<in> fst ` set kvs.
           foldName k \<noteq> foldName ''error_summary'' \<and> foldName k \<noteq> foldName ''error''"
  shows "snd (snd (ListDocs c a)) = Some (RemoteError \<lparr>Summary = [], Metadata = None\<rparr>)
         \<and> snd (snd (snd (DownloadDoc c d))) = Some (RemoteError \<lparr>Summary = [], Metadata = None\<rparr>)
         \<and> snd (snd (GetDocFolderInfo c r)) = Some (RemoteError \<lparr>Summary = [], Metadata = None\<rparr>)
         \<and> \<not> is_EncodingError (RemoteError \<lparr>Summary = [], Metadata = None\<rparr>)"
  using assms(2)
  by (simp add: snd_ListDocs_mock [OF assms(1)] snd_DownloadDoc_mock [OF assms(1)]
        snd_GetDocFolderInfo_mock [OF assms(1)] decode_apierr_no_match [OF assms(3,4)]
        zero_APIError_def)

theorem unmatched_error_body_gives_empty_RemoteError_witness:
  "snd (snd (ListDocs (NewClient (mock empty_object_resp) ''tok'') None))
     = Some (RemoteError \<lparr>Summary = [], Metadata = None\<rparr>)
   \<and> snd (snd (snd (DownloadDoc (NewClient (mock empty_object_resp) ''tok'') None)))
     = Some (RemoteError \<lparr>Summary = [], Metadata = None\<rparr>)
   \<and> snd (snd (GetDocFolderInfo (NewClient (mock empty_object_resp) ''tok'') None))
     = Some (RemoteError \<lparr>Summary = [], Metadata = None\<rparr>)
   \<and> StatusCode empty_object_resp = 500"
proof -
  have 1: "HTTP (NewClient (mock empty_object_resp) ''tok'') = mock empty_object_resp"
    by (rule HTTP_NewClient)
  have 2: "StatusCode empty_object_resp \<noteq> StatusOK"
    by (simp add: empty_object_resp_def StatusOK_def)
  have 3: "readValue (response.Body empty_object_resp) = Inr (JObject [])"
    by (simp add: empty_object_resp_def readValue_complete [OF scan_empty_object])
  have 4: "\<forall>k \<in> fst ` set ([] :: (string \<times> json) list).
           foldName k \<noteq> foldName ''error_summary'' \<and> foldName k \<noteq> foldName ''error''"
    by simp
  have 5: "StatusCode empty_object_resp = 500"
    by (simp add: empty_object_resp_def)
  show ?thesis
    using unmatched_error_body_gives_empty_RemoteError [OF 1 2 3 4, of None None None]
    by (simp add: 5)
qed

lemma store_fields_filter:
  "store_fields names field kvs cur =
   store_fields names field (filter (\<lambda>m. field_of_key names (fst m) \<noteq> None) kvs) cur"
proof (induction kvs arbitrary: cur)
  case Nil
  show ?case by simp
next
  case (Cons kv kvs)
  obtain k v where kv: "kv = (k, v)" by (cases kv)
  show ?case
  proof (cases "field_of_key names k")
    case None
    then show ?thesis
      using Cons.IH [of cur] by (simp add: kv)
  next
    case (Some n)
    obtain cur' e where f: "field n v cur = (cur', e)" by (cases "field n v cur")
    show ?thesis
      using Cons.IH [of cur'] by (simp add: kv Some f)
  qed
qed

lemma is_APIError_key_iff: "field_of_key APIError_fields k \<noteq> None \<longleftrightarrow> is_APIError_key k"
proof
  assume some: "field_of_key APIError_fields k \<noteq> None"
  show "is_APIError_key k"
  proof (rule ccontr)
    assume "\<not> is_APIError_key k"
    then have "foldName k \<noteq> foldName ''error_summary''" and "foldName k \<noteq> foldName ''error''"
      unfolding is_APIError_key_def by (simp_all del: foldName.simps)
    then have "field_of_key APIError_fields k = None"
      by (rule no_field_of_key)
    with some show False by (rule notE)
  qed
next
  assume "is_APIError_key k"
  then consider "foldName ''error_summary'' = foldName k" | "foldName ''error'' = foldName k"
    unfolding is_APIError_key_def by metis
  then show "field_of_key APIError_fields k \<noteq> None"
  proof cases
    case 1
    then show ?thesis
      by (simp add: field_of_key_def APIError_fields_def del: foldName.simps)
  next
    case 2
    then show ?thesis
      by (simp add: field_of_key_def APIError_fields_def del: foldName.simps)
  qed
qed

lemma decode_apierr_members:
  assumes "readValue body = Inr (JObject kvs)"
  shows "decode_apierr body =
     (case store_fields APIError_fields APIError_field
             (filter (\<lambda>m. is_APIError_key (fst m)) kvs) zero_APIError of
        (apierr, Some err) \<Rightarrow> err
      | (apierr, None) \<Rightarrow> RemoteError apierr)"
proof -
  have "store_fields APIError_fields APIError_field kvs zero_APIError =
        store_fields APIError_fields APIError_field
          (filter (\<lambda>m. is_APIError_key (fst m)) kvs) zero_APIError"
    using store_fields_filter [of APIError_fields APIError_field kvs zero_APIError]
    by (simp only: is_APIError_key_iff)
  then show ?thesis
    using assms by (simp add: decode_apierr_def Decode_def store_APIError_def store_struct_def)
qed

lemma store_fields_APIError:
  "store_fields APIError_fields APIError_field
     [(''error_summary'', JString s), (''error'', JObject (map (\<lambda>(k, v). (k, JString v)) es))]
     zero_APIError = (\<lparr>Summary = s, Metadata = Some (map_of (rev es))\<rparr>, None)"
  "store_fields APIError_fields APIError_field
     [(''error'', JObject (map (\<lambda>(k, v). (k, JString v)) es)), (''error_summary'', JString s)]
     zero_APIError = (\<lparr>Summary = s, Metadata = Some (map_of (rev es))\<rparr>, None)"
  by (simp_all add: key_error_summary key_error APIError_field_def store_map_def
        store_members_strings zero_APIError_def saveError_def)

lemma decode_apierr_document:
  assumes "readValue body = Inr (JObject kvs)"
    and "filter (\<lambda>m. is_APIError_key (fst m)) kvs
           = [(''error_summary'', JString s),
              (''error'', JObject (map (\<lambda>(k, v). (k, JString v)) es))]
         \<or> filter (\<lambda>m. is_APIError_key (fst m)) kvs
           = [(''error'', JObject (map (\<lambda>(k, v). (k, JString v)) es)),
              (''error_summary'', JString s)]"
  shows "decode_apierr body = RemoteError \<lparr>Summary = s, Metadata = Some (map_of (rev es))\<rparr>"
  using assms(2)
proof
  assume "filter (\<lambda>m. is_APIError_key (fst m)) kvs
           = [(''error_summary'', JString s),
              (''error'', JObject (map (\<lambda>(k, v). (k, JString v)) es))]"
  then show ?thesis
    by (simp only: decode_apierr_members [OF assms(1)] store_fields_APIError prod.case
          option.case)
next
  assume "filter (\<lambda>m. is_APIError_key (fst m)) kvs
           = [(''error'', JObject (map (\<lambda>(k, v). (k, JString v)) es)),
              (''error_summary'', JString s)]"
  then show ?thesis
    by (simp only: decode_apierr_members [OF assms(1)] store_fields_APIError prod.case
          option.case)
qed

text \<open>
  C6 (amended). When the status of the response is not 200 and the body is a JSON object
  with one member \<^verbatim>\<open>error_summary\<close> (a string) and one member \<^verbatim>\<open>error\<close> (an object of
  strings), in either order, and with no other member whose key is \<^verbatim>\<open>error_summary\<close> or
  \<^verbatim>\<open>error\<close> when the case of letters is ignored, each of the three operations fails with
  an \<^verbatim>\<open>APIError\<close> as its error whose summary is the body's \<^verbatim>\<open>error_summary\<close> and whose
  metadata mapping is the body's \<^verbatim>\<open>error\<close> mapping (the last value of a key that is
  repeated in it). Members that belong to no field may stand anywhere in the object.
\<close>
theorem error_response_gives_RemoteError:
  assumes "HTTP c = mock resp" and "StatusCode resp \<noteq> StatusOK"
    and "readValue (response.Body resp) = Inr (JObject kvs)"
    and "filter (\<lambda>m. is_APIError_key (fst m)) kvs
           = [(''error_summary'', JString s),
              (''error'', JObject (map (\<lambda>(k, v). (k, JString v)) es))]
         \<or> filter (\<lambda>m. is_APIError_key (fst m)) kvs
           = [(''error'', JObject (map (\<lambda>(k, v). (k, JString v)) es)),
              (''error_summary'', JString s)]"
  shows "snd (snd (ListDocs c a))
           = Some (RemoteError \<lparr>Summary = s, Metadata = Some (map_of (rev es))\<rparr>)
         \<and> snd (snd (snd (DownloadDoc c d)))
           = Some (RemoteError \<lparr>Summary = s, Metadata = Some (map_of (rev es))\<rparr>)
         \<and> snd (snd (GetDocFolderInfo c r))
           = Some (RemoteError \<lparr>Summary = s, Metadata = Some (map_of (rev es))\<rparr>)"
  using assms(2)
  by (simp add: snd_ListDocs_mock [OF assms(1)] snd_DownloadDoc_mock [OF assms(1)]
        snd_GetDocFolderInfo_mock [OF assms(1)] decode_apierr_document [OF assms(3,4)])

lemma scan_shadowed:
  "scan BeginValue [] shadowed_json =
     ScanValue (JObject [(''error_summary'', JString ''conflict''),
        (''error'', JObject [(''reason'', JString ''x'')]),
        (''Error_Summary'', JString ''boom'')]) []"
  by code_simp

lemma scan_swapped:
  "scan BeginValue [] swapped_json =
     ScanValue (JObject [(''error'', JObject [(''reason'', JString ''x'')]),
        (''status'', JNumber ''409''), (''error_summary'', JString ''conflict'')]) []"
  by code_simp

lemma APIError_keys:
  "is_APIError_key ''error_summary''" "is_APIError_key ''error''"
  "\<not> is_APIError_key ''status''"
  by code_simp+

lemma decode_apierr_shadowed:
  "decode_apierr (complete shadowed_json) =
     RemoteError \<lparr>Summary = ''boom'', Metadata = Some [''reason'' \<mapsto> ''x'']\<rparr>"
  by (simp add: decode_apierr_def Decode_def readValue_complete [OF scan_shadowed]
        store_APIError_def store_struct_def key_error_summary key_error key_Error_Summary
        APIError_field_def store_map_def zero_APIError_def saveError_def)

text \<open>
  C6 (as stated, refuted). The claim says that a non-200 body that decodes as an
  \<^verbatim>\<open>APIError\<close> gives a \<^verbatim>\<open>RemoteError\<close> whose summary is the body's
  \<^verbatim>\<open>error_summary\<close>. The body
  \<^verbatim>\<open>{"error_summary":"conflict","error":{"reason":"x"},"Error_Summary":"boom"}\<close> decodes
  as an \<^verbatim>\<open>APIError\<close>, and the summary of the error is \<open>boom\<close>, not the body's
  \<^verbatim>\<open>error_summary\<close>: the later member goes to the same field, since keys are matched to
  fields without regard to case.
\<close>
theorem later_key_replaces_summary:
  "readValue (response.Body shadowed_resp) =
     Inr (JObject [(''error_summary'', JString ''conflict''),
        (''error'', JObject [(''reason'', JString ''x'')]),
        (''Error_Summary'', JString ''boom'')])
   \<and> StatusCode shadowed_resp = 409
   \<and> snd (snd (ListDocs (NewClient (mock shadowed_resp) ''tok'') None))
       = Some (RemoteError \<lparr>Summary = ''boom'', Metadata = Some [''reason'' \<mapsto> ''x'']\<rparr>)
   \<and> ''boom'' \<noteq> ''conflict''"
proof (intro conjI)
  show "readValue (response.Body shadowed_resp) =
     Inr (JObject [(''error_summary'', JString ''conflict''),
        (''error'', JObject [(''reason'', JString ''x'')]),
        (''Error_Summary'', JString ''boom'')])"
    by (simp add: shadowed_resp_def readValue_complete [OF scan_shadowed])
  show "StatusCode shadowed_resp = 409"
    by (simp add: shadowed_resp_def)
  show "snd (snd (ListDocs (NewClient (mock shadowed_resp) ''tok'') None))
       = Some (RemoteError \<lparr>Summary = ''boom'', Metadata = Some [''reason'' \<mapsto> ''x'']\<rparr>)"
    by (simp add: snd_ListDocs_mock [of _ shadowed_resp] HTTP_NewClient)
       (simp add: shadowed_resp_def StatusOK_def decode_apierr_shadowed)
  show "''boom'' \<noteq> ''conflict''"
    by simp
qed

theorem error_response_gives_RemoteError_witness:
  "snd (snd (ListDocs (NewClient (mock conflict_resp) ''tok'') None))
     = Some (RemoteError \<lparr>Summary = ''conflict'', Metadata = Some [''reason'' \<mapsto> ''x'']\<rparr>)
   \<and> snd (snd (snd (DownloadDoc (NewClient (mock conflict_resp) ''tok'') None)))
     = Some (RemoteError \<lparr>Summary = ''conflict'', Metadata = Some [''reason'' \<mapsto> ''x'']\<rparr>)
   \<and> snd (snd (GetDocFolderInfo (NewClient (mock conflict_resp) ''tok'') None))
     = Some (RemoteError \<lparr>Summary = ''conflict'', Metadata = Some [''reason'' \<mapsto> ''x'']\<rparr>)
   \<and> StatusCode conflict_resp = 409
   \<and> snd (snd (ListDocs (NewClient (mock swapped_resp) ''tok'') None))
     = Some (RemoteError \<lparr>Summary = ''conflict'', Metadata = Some [''reason'' \<mapsto> ''x'']\<rparr>)"
proof -
  have 1: "HTTP (NewClient (mock conflict_resp) ''tok'') = mock conflict_resp"
    by (rule HTTP_NewClient)
  have 2: "StatusCode conflict_resp \<noteq> StatusOK"
    by (simp add: conflict_resp_def StatusOK_def)
  have 3: "readValue (response.Body conflict_resp) =
      Inr (JObject [(''error_summary'', JString ''conflict''),
             (''error'', JObject [(''reason'', JString ''x'')])])"
    by (simp add: conflict_resp_def readValue_complete [OF scan_conflict])
  have 4: "filter (\<lambda>m. is_APIError_key (fst m))
             [(''error_summary'', JString ''conflict''),
              (''error'', JObject [(''reason'', JString ''x'')])]
           = [(''error_summary'', JString ''conflict''),
              (''error'', JObject (map (\<lambda>(k, v). (k, JString v)) [(''reason'', ''x'')]))]
         \<or> filter (\<lambda>m. is_APIError_key (fst m))
             [(''error_summary'', JString ''conflict''),
              (''error'', JObject [(''reason'', JString ''x'')])]
           = [(''error'', JObject (map (\<lambda>(k, v). (k, JString v)) [(''reason'', ''x'')])),
              (''error_summary'', JString ''conflict'')]"
    by (simp add: APIError_keys)
  have 5: "StatusCode conflict_resp = 409"
    by (simp add: conflict_resp_def)
  have s1: "HTTP (NewClient (mock swapped_resp) ''tok'') = mock swapped_resp"
    by (rule HTTP_NewClient)
  have s2: "StatusCode swapped_resp \<noteq> StatusOK"
    by (simp add: swapped_resp_def StatusOK_def)
  have s3: "readValue (response.Body swapped_resp) =
      Inr (JObject [(''error'', JObject [(''reason'', JString ''x'')]),
        (''status'', JNumber ''409''), (''error_summary'', JString ''conflict'')])"
    by (simp add: swapped_resp_def readValue_complete [OF scan_swapped])
  have s4: "filter (\<lambda>m. is_APIError_key (fst m))
             [(''error'', JObject [(''reason'', JString ''x'')]),
              (''status'', JNumber ''409''), (''error_summary'', JString ''conflict'')]
           = [(''error_summary'', JString ''conflict''),
              (''error'', JObject (map (\<lambda>(k, v). (k, JString v)) [(''reason'', ''x'')]))]
         \<or> filter (\<lambda>m. is_APIError_key (fst m))
             [(''error'', JObject [(''reason'', JString ''x'')]),
              (''status'', JNumber ''409''), (''error_summary'', JString ''conflict'')]
           = [(''error'', JObject (map (\<lambda>(k, v). (k, JString v)) [(''reason'', ''x'')])),
              (''error_summary'', JString ''conflict'')]"
    by (simp add: APIError_keys)
  show ?thesis
    using error_response_gives_RemoteError [OF 1 2 3 4, of None None None]
      error_response_gives_RemoteError [OF s1 s2 s3 s4, of None None None]
    by (simp add: 5)
qed

section \<open>Scanning what \<open>Marshal\<close> writes\<close>

lemma htmlSafe_bytes:
  "htmlSafe c \<Longrightarrow> byte c < 0x80 \<and> 0x20 \<le> byte c \<and> byte c \<noteq> 0x22 \<and> byte c \<noteq> 0x5C"
  by (simp add: htmlSafe_def)

lemma escape_plain: "list_all htmlSafe s \<Longrightarrow> escape s = s"
proof (induction s)
  case Nil
  show ?case by simp
next
  case (Cons c s)
  then have "htmlSafe c" and "escape s = s" by simp_all
  then show ?case
    using htmlSafe_bytes [of c] by simp
qed

lemma unquote_plain: "list_all htmlSafe s \<Longrightarrow> unquote s = s"
proof (induction s)
  case Nil
  show ?case by simp
next
  case (Cons c s)
  then have "htmlSafe c" and "unquote s = s" by simp_all
  then show ?case
    using htmlSafe_bytes [of c] by simp
qed

lemma step_InString_plain:
  "htmlSafe c \<Longrightarrow> step (InString acc) st c = Continue (InString (acc @ [c])) st"
  using htmlSafe_bytes [of c] by (simp add: step_def)

lemma scan_InString_plain:
  "list_all htmlSafe s \<Longrightarrow> scan (InString acc) st (s @ rest) = scan (InString (acc @ s)) st rest"
proof (induction s arbitrary: acc)
  case Nil
  show ?case by simp
next
  case (Cons c s)
  then have c: "htmlSafe c" and s: "list_all htmlSafe s" by simp_all
  have "scan (InString acc) st ((c # s) @ rest) = scan (InString (acc @ [c])) st (s @ rest)"
    by (simp add: step_InString_plain [OF c])
  also have "\<dots> = scan (InString ((acc @ [c]) @ s)) st rest"
    by (rule Cons.IH [OF s])
  finally show ?case by simp
qed

lemma step_InString_quote:
  "step (InString raw) st (CHR 0x22) = end_value (JString (unquote raw)) st"
  by (simp add: step_def byte_def)

lemma scans_as_string:
  assumes "list_all htmlSafe s"
  shows "scans_as (appendString s) (JString s)"
  unfolding scans_as_def
proof (intro allI impI)
  fix kvs k st c rest
  have "scan BeginValue (FValue kvs k # st) (appendString s @ c # rest)
      = scan (InString []) (FValue kvs k # st) (s @ CHR 0x22 # c # rest)"
    by (simp add: appendString_def escape_plain [OF assms] step_def stateBeginValue_def
          isSpace_def byte_def)
  also have "\<dots> = scan (InString s) (FValue kvs k # st) (CHR 0x22 # c # rest)"
    using scan_InString_plain [OF assms, of "[]"] by simp
  also have "\<dots> = scan EndValue (FKey ((k, JString s) # kvs) # st) (c # rest)"
    by (simp add: step_InString_quote unquote_plain [OF assms])
  finally show "scan BeginValue (FValue kvs k # st) (appendString s @ c # rest)
      = scan EndValue (FKey ((k, JString s) # kvs) # st) (c # rest)" .
qed

lemma scan_member:
  assumes k: "list_all htmlSafe k" and t: "scans_as t v" and c: "c = CHR '','' \<or> c = CHR ''}''"
  shows "scan BeginString (FKey kvs # st) (member k t @ c # rest)
       = scan EndValue (FKey ((k, v) # kvs) # st) (c # rest)"
proof -
  have "scan BeginString (FKey kvs # st) (member k t @ c # rest)
      = scan (InString []) (FKey kvs # st) (k @ CHR 0x22 # CHR '':'' # t @ c # rest)"
    by (simp add: member_def appendString_def escape_plain [OF k] step_def stateBeginString_def
          isSpace_def byte_def)
  also have "\<dots> = scan (InString k) (FKey kvs # st) (CHR 0x22 # CHR '':'' # t @ c # rest)"
    using scan_InString_plain [OF k, of "[]"] by simp
  also have "\<dots> = scan EndValue (FColon kvs k # st) (CHR '':'' # t @ c # rest)"
    by (simp add: step_InString_quote unquote_plain [OF k])
  also have "\<dots> = scan BeginValue (FValue kvs k # st) (t @ c # rest)"
    by (simp add: step_def stateEndValue_def isSpace_def byte_def)
  also have "\<dots> = scan EndValue (FKey ((k, v) # kvs) # st) (c # rest)"
    using t c unfolding scans_as_def by blast
  finally show ?thesis .
qed

lemma scan_members:
  assumes "ms \<noteq> []"
    and "\<forall>m \<in> set ms. list_all htmlSafe (fst m) \<and> scans_as (fst (snd m)) (snd (snd m))"
  shows "scan BeginString (FKey kvs # st)
           (join_fields (map (\<lambda>m. member (fst m) (fst (snd m))) ms) @ CHR ''}'' # rest)
       = scan EndValue (FKey (rev (map (\<lambda>m. (fst m, snd (snd m))) ms) @ kvs) # st)
           (CHR ''}'' # rest)"
  using assms
proof (induction ms arbitrary: kvs rule: list_nonempty_induct)
  case (single m)
  then have "list_all htmlSafe (fst m)" and "scans_as (fst (snd m)) (snd (snd m))"
    by simp_all
  then show ?case
    using scan_member [of "fst m" "fst (snd m)" "snd (snd m)" "CHR ''}''" kvs st rest]
    by simp
next
  case (cons m ms)
  then have m: "list_all htmlSafe (fst m)" "scans_as (fst (snd m)) (snd (snd m))"
    and ms: "\<forall>m \<in> set ms. list_all htmlSafe (fst m) \<and> scans_as (fst (snd m)) (snd (snd m))"
    by simp_all
  obtain m' ms' where split: "ms = m' # ms'"
    using cons.hyps by (cases ms) auto
  let ?tail = "join_fields (map (\<lambda>m. member (fst m) (fst (snd m))) ms) @ CHR ''}'' # rest"
  have "scan BeginString (FKey kvs # st)
          (join_fields (map (\<lambda>m. member (fst m) (fst (snd m))) (m # ms)) @ CHR ''}'' # rest)
      = scan BeginString (FKey kvs # st) (member (fst m) (fst (snd m)) @ CHR '','' # ?tail)"
    by (simp add: split)
  also have "\<dots> = scan EndValue (FKey ((fst m, snd (snd m)) # kvs) # st) (CHR '','' # ?tail)"
    using scan_member [OF m, of "CHR '',''"] by simp
  also have "\<dots> = scan BeginString (FKey ((fst m, snd (snd m)) # kvs) # st) ?tail"
    by (simp add: step_def stateEndValue_def isSpace_def byte_def)
  also have "\<dots> = scan EndValue
        (FKey (rev (map (\<lambda>m. (fst m, snd (snd m))) ms) @ (fst m, snd (snd m)) # kvs) # st)
        (CHR ''}'' # rest)"
    by (rule cons.IH [OF ms])
  finally show ?case by simp
qed

lemma join_fields_starts_with_quote:
  "ms \<noteq> [] \<Longrightarrow>
   \<exists>xs. join_fields (map (\<lambda>m. member (fst m) (fst (snd m))) ms) = CHR 0x22 # xs"
proof (cases ms)
  case Nil
  assume "ms \<noteq> []"
  with Nil show ?thesis by simp
next
  case (Cons m ms')
  show ?thesis
    by (cases ms') (simp_all add: Cons member_def appendString_def)
qed

lemma scan_marshal_struct:
  assumes "\<forall>m \<in> set ms. list_all htmlSafe (fst m) \<and> scans_as (fst (snd m)) (snd (snd m))"
  shows "scan BeginValue [] (marshal_struct (map (\<lambda>m. member (fst m) (fst (snd m))) ms))
       = ScanValue (JObject (map (\<lambda>m. (fst m, snd (snd m))) ms)) []"
proof (cases "ms = []")
  case True
  then show ?thesis
    by (simp add: marshal_struct_def step_def stateBeginValue_def stateEndValue_def
          pushParseState_def maxNestingDepth_def close_value_def isSpace_def byte_def)
next
  case False
  let ?body = "join_fields (map (\<lambda>m. member (fst m) (fst (snd m))) ms)"
  obtain xs where xs: "?body = CHR 0x22 # xs"
    using join_fields_starts_with_quote [OF False] by blast
  have "scan BeginValue [] (marshal_struct (map (\<lambda>m. member (fst m) (fst (snd m))) ms))
      = scan BeginStringOrEmpty [FKey []] (?body @ ''}'')"
    by (simp add: marshal_struct_def step_def stateBeginValue_def pushParseState_def
          maxNestingDepth_def isSpace_def byte_def)
  also have "\<dots> = scan BeginString [FKey []] (?body @ ''}'')"
    by (simp add: xs step_def stateBeginString_def isSpace_def byte_def)
  also have "\<dots> = scan EndValue [FKey (rev (map (\<lambda>m. (fst m, snd (snd m))) ms) @ [])] ''}''"
    using scan_members [OF False assms, of "[]" "[]" "[]"] by simp
  also have "\<dots> = ScanValue (JObject (map (\<lambda>m. (fst m, snd (snd m))) ms)) []"
    by (simp add: step_def stateEndValue_def close_value_def isSpace_def byte_def)
  finally show ?thesis .
qed

section \<open>Decimal numbers\<close>

lemma byte_digit: "(m::nat) < 10 \<Longrightarrow> byte (char_of (0x30 + m)) = 0x30 + m"
  by (simp add: byte_def)

lemma isDigit_digit: "(m::nat) < 10 \<Longrightarrow> isDigit (char_of (0x30 + m))"
  by (simp add: isDigit_def byte_digit)

lemma isDigit_FormatUint: "list_all isDigit (FormatUint n)"
proof (induction n rule: FormatUint.induct)
  case (1 n)
  show ?case
  proof (cases "n < 10")
    case True
    then show ?thesis
      by (subst FormatUint.simps) (simp add: isDigit_digit)
  next
    case False
    with 1 have "list_all isDigit (FormatUint (n div 10))" by simp
    then show ?thesis
      using False by (subst FormatUint.simps) (simp add: isDigit_digit)
  qed
qed

lemma FormatUint_not_empty: "FormatUint n \<noteq> []"
  by (subst FormatUint.simps) simp

lemma digits_value_snoc:
  "digits_value (ds @ [c]) = 10 * digits_value ds + (byte c - 0x30)"
  by (simp add: digits_value_def)

lemma digits_value_FormatUint: "digits_value (FormatUint n) = n"
proof (induction n rule: FormatUint.induct)
  case (1 n)
  show ?case
  proof (cases "n < 10")
    case True
    then show ?thesis
      by (subst FormatUint.simps) (simp add: digits_value_def byte_digit)
  next
    case False
    with 1 have "digits_value (FormatUint (n div 10)) = n div 10" by simp
    then show ?thesis
      using False
      by (subst FormatUint.simps) (simp add: digits_value_snoc byte_digit)
  qed
qed

lemma hd_FormatUint: "0 < n \<Longrightarrow> byte (hd (FormatUint n)) \<noteq> 0x30"
proof (induction n rule: FormatUint.induct)
  case (1 n)
  show ?case
  proof (cases "n < 10")
    case True
    with 1(2) show ?thesis
      by (subst FormatUint.simps) (simp add: byte_digit)
  next
    case False
    then have "0 < n div 10" by simp
    with 1 False have "byte (hd (FormatUint (n div 10))) \<noteq> 0x30" by simp
    then show ?thesis
      using False FormatUint_not_empty [of "n div 10"]
      by (subst FormatUint.simps) simp
  qed
qed

lemma FormatUint_0: "FormatUint 0 = ''0''"
  by (subst FormatUint.simps) (simp add: char_of_eq_iff)

lemma ParseInt_FormatInt:
  assumes "- (2 ^ 63) \<le> i" and "i < 2 ^ 63"
  shows "ParseInt (FormatInt i) = Some i"
proof (cases "i < 0")
  case True
  then have "FormatInt i = CHR ''-'' # FormatUint (nat (- i))"
    by (simp add: FormatInt_def)
  then show ?thesis
    using assms True
    by (simp add: ParseInt_def FormatUint_not_empty isDigit_FormatUint digits_value_FormatUint)
next
  case False
  obtain d ds where dds: "FormatUint (nat i) = d # ds"
    using FormatUint_not_empty [of "nat i"] by (cases "FormatUint (nat i)") auto
  have "list_all isDigit (d # ds)"
    using isDigit_FormatUint [of "nat i"] by (simp add: dds)
  then have d: "d \<noteq> CHR ''-''" "d \<noteq> CHR ''+''"
    by (auto simp add: isDigit_def byte_def)
  have "ParseInt (d # ds) = Some i"
    using assms False d isDigit_FormatUint [of "nat i"] digits_value_FormatUint [of "nat i"]
    by (simp add: ParseInt_def dds)
  then show ?thesis
    using False by (simp add: FormatInt_def dds)
qed

lemma scan_digits:
  "list_all isDigit ds \<Longrightarrow> scan (Num N1 lit) st (ds @ rest) = scan (Num N1 (lit @ ds)) st rest"
proof (induction ds arbitrary: lit)
  case Nil
  show ?case by simp
next
  case (Cons d ds)
  then have d: "isDigit d" and ds: "list_all isDigit ds" by simp_all
  have "scan (Num N1 lit) st ((d # ds) @ rest) = scan (Num N1 (lit @ [d])) st (ds @ rest)"
    using d by (simp add: step_def stateNum_def)
  also have "\<dots> = scan (Num N1 ((lit @ [d]) @ ds)) st rest"
    by (rule Cons.IH [OF ds])
  finally show ?case by simp
qed

lemma digit_begins_number:
  assumes "isDigit d" and "byte d \<noteq> 0x30"
  shows "stateBeginValue st d = Continue (Num N1 [d]) st"
    and "stateNum Neg lit st d = Continue (Num N1 (lit @ [d])) st"
proof -
  have "\<not> isSpace d" "d \<noteq> CHR ''{''" "d \<noteq> CHR ''[''" "byte d \<noteq> 0x22" "d \<noteq> CHR ''-''"
    "d \<noteq> CHR ''0''" "d \<noteq> CHR ''t''" "d \<noteq> CHR ''f''" "d \<noteq> CHR ''n''"
    using assms by (auto simp add: isDigit_def isSpace_def byte_def)
  then show "stateBeginValue st d = Continue (Num N1 [d]) st"
    and "stateNum Neg lit st d = Continue (Num N1 (lit @ [d])) st"
    using assms(1) by (simp_all add: stateBeginValue_def stateNum_def)
qed

lemma number_ends:
  assumes "c = CHR '','' \<or> c = CHR ''}''" and "n = N0 \<or> n = N1"
  shows "scan (Num n lit) (FValue kvs k # st) (c # rest)
       = scan EndValue (FKey ((k, JNumber lit) # kvs) # st) (c # rest)"
proof -
  have c: "\<not> isDigit c" "c \<noteq> CHR ''.''" "c \<noteq> CHR ''e''" "c \<noteq> CHR ''E''"
    using assms(1) by (auto simp add: isDigit_def byte_def)
  have "stateNum n lit (FValue kvs k # st) c
      = stateEndValue (FKey ((k, JNumber lit) # kvs) # st) c"
    using assms(2) c by (auto simp add: stateNum_def end_number_def)
  then show ?thesis
    by (simp add: step_def)
qed

lemma scans_as_int: "scans_as (FormatInt i) (JNumber (FormatInt i))"
  unfolding scans_as_def
proof (intro allI impI)
  fix kvs k st c rest
  assume c: "c = CHR '','' \<or> c = CHR ''}''"
  let ?st = "FValue kvs k # st"
  show "scan BeginValue ?st (FormatInt i @ c # rest)
      = scan EndValue (FKey ((k, JNumber (FormatInt i)) # kvs) # st) (c # rest)"
  proof (cases "i = 0")
    case True
    have "scan BeginValue ?st (''0'' @ c # rest) = scan (Num N0 ''0'') ?st (c # rest)"
      by (simp add: step_def stateBeginValue_def isSpace_def byte_def)
    then show ?thesis
      using number_ends [OF c, of N0 "''0''"] by (simp add: True FormatInt_def FormatUint_0)
  next
    case False
    define n where "n = nat \<bar>i\<bar>"
    have n: "0 < n" using False by (simp add: n_def)
    obtain d ds where dds: "FormatUint n = d # ds"
      using FormatUint_not_empty [of n] by (cases "FormatUint n") auto
    have d: "isDigit d" and ds: "list_all isDigit ds"
      using isDigit_FormatUint [of n] by (simp_all add: dds)
    have d0: "byte d \<noteq> 0x30"
      using hd_FormatUint [OF n] by (simp add: dds)
    show ?thesis
    proof (cases "i < 0")
      case True
      then have "nat (- i) = n"
        by (simp add: n_def)
      with True have lit: "FormatInt i = CHR ''-'' # d # ds"
        by (simp add: FormatInt_def dds)
      have "scan BeginValue ?st ((CHR ''-'' # d # ds) @ c # rest)
          = scan (Num Neg ''-'') ?st (d # ds @ c # rest)"
        by (simp add: step_def stateBeginValue_def isSpace_def byte_def)
      also have "\<dots> = scan (Num N1 (''-'' @ [d])) ?st (ds @ c # rest)"
        by (simp add: step_def digit_begins_number(2) [OF d d0])
      also have "\<dots> = scan (Num N1 ((''-'' @ [d]) @ ds)) ?st (c # rest)"
        by (rule scan_digits [OF ds])
      also have "\<dots> = scan EndValue (FKey ((k, JNumber ((''-'' @ [d]) @ ds)) # kvs) # st) (c # rest)"
        by (rule number_ends [OF c]) simp
      finally show ?thesis by (simp add: lit)
    next
      case False
      then have "nat i = n"
        by (simp add: n_def)
      with False have lit: "FormatInt i = d # ds"
        by (simp add: FormatInt_def dds)
      have "scan BeginValue ?st ((d # ds) @ c # rest) = scan (Num N1 [d]) ?st (ds @ c # rest)"
        by (simp add: step_def digit_begins_number(1) [OF d d0])
      also have "\<dots> = scan (Num N1 ([d] @ ds)) ?st (c # rest)"
        by (rule scan_digits [OF ds])
      also have "\<dots> = scan EndValue (FKey ((k, JNumber ([d] @ ds)) # kvs) # st) (c # rest)"
        by (rule number_ends [OF c]) simp
      finally show ?thesis by (simp add: lit)
    qed
  qed
qed

section \<open>The round trip of \<^verbatim>\<open>ListPaperDocsArgs\<close>\<close>

lemma store_int_FormatInt:
  "store_int (JNumber (FormatInt (sint l))) cur = (l :: 32 word, None)"
proof -
  have lo: "- (2 ^ 31) \<le> sint l" and hi: "sint l < 2 ^ 31"
    using sint_ge [of l] sint_lt [of l] by simp_all
  have "ParseInt (FormatInt (sint l)) = Some (sint l)"
    using lo hi by (intro ParseInt_FormatInt) simp_all
  then show ?thesis
    using lo hi by (simp add: store_int_def)
qed

lemma plain_keys:
  "list_all htmlSafe ''filter_by''" "list_all htmlSafe ''sort_by''"
  "list_all htmlSafe ''sort_order''" "list_all htmlSafe ''limit''"
  by code_simp+

lemma plain_constants:
  "list_all htmlSafe ListPaperDocsFilterByAccessed"
  "list_all htmlSafe ListPaperDocsFilterByModified"
  "list_all htmlSafe ListPaperDocsFilterByCreated"
  "list_all htmlSafe ListPaperDocsSortByAccessed"
  "list_all htmlSafe ListPaperDocsSortByModified"
  "list_all htmlSafe ListPaperDocsSortByCreated"
  "list_all htmlSafe ListPaperDocsSortOrderAsc"
  "list_all htmlSafe ListPaperDocsSortOrderDesc"
  by code_simp+

lemma valid_plain:
  assumes "valid_ListPaperDocsArgs a"
  shows "list_all htmlSafe (FilterBy a)" "list_all htmlSafe (SortBy a)"
    "list_all htmlSafe (SortOrder a)"
  using assms plain_constants by (auto simp add: valid_ListPaperDocsArgs_def)

lemma key_filter_by: "field_of_key ListPaperDocsArgs_fields ''filter_by'' = Some ''filter_by''"
  by code_simp

lemma key_sort_by: "field_of_key ListPaperDocsArgs_fields ''sort_by'' = Some ''sort_by''"
  by code_simp

lemma key_sort_order: "field_of_key ListPaperDocsArgs_fields ''sort_order'' = Some ''sort_order''"
  by code_simp

lemma key_limit: "field_of_key ListPaperDocsArgs_fields ''limit'' = Some ''limit''"
  by code_simp

lemma store_filter_by:
  "ListPaperDocsArgs_field ''filter_by'' (JString s) x = (x\<lparr>FilterBy := s\<rparr>, None)"
  by (simp add: ListPaperDocsArgs_field_def)

lemma store_sort_by:
  "ListPaperDocsArgs_field ''sort_by'' (JString s) x = (x\<lparr>SortBy := s\<rparr>, None)"
  by (simp add: ListPaperDocsArgs_field_def)

lemma store_sort_order:
  "ListPaperDocsArgs_field ''sort_order'' (JString s) x = (x\<lparr>SortOrder := s\<rparr>, None)"
  by (simp add: ListPaperDocsArgs_field_def)

lemma store_limit:
  "ListPaperDocsArgs_field ''limit'' (JNumber (FormatInt (sint l))) x = (x\<lparr>Limit := l\<rparr>, None)"
  by (simp add: ListPaperDocsArgs_field_def store_int_FormatInt)

lemma ListPaperDocsArgs_scan:
  assumes "valid_ListPaperDocsArgs a"
  shows "\<exists>s. Marshal_ListPaperDocsArgs (Some a) = Inr s
           \<and> scan BeginValue [] s =
               ScanValue (JObject
                  ((if FilterBy a \<noteq> [] then [(''filter_by'', JString (FilterBy a))] else [])
                   @ (if SortBy a \<noteq> [] then [(''sort_by'', JString (SortBy a))] else [])
                   @ (if SortOrder a \<noteq> [] then [(''sort_order'', JString (SortOrder a))] else [])
                   @ (if Limit a \<noteq> 0
                      then [(''limit'', JNumber (FormatInt (sint (Limit a))))] else []))) []"
proof -
  let ?ms = "(if FilterBy a \<noteq> []
              then [(''filter_by'', appendString (FilterBy a), JString (FilterBy a))] else [])
             @ (if SortBy a \<noteq> []
                then [(''sort_by'', appendString (SortBy a), JString (SortBy a))] else [])
             @ (if SortOrder a \<noteq> []
                then [(''sort_order'', appendString (SortOrder a), JString (SortOrder a))] else [])
             @ (if Limit a \<noteq> 0
                then [(''limit'', FormatInt (sint (Limit a)),
                       JNumber (FormatInt (sint (Limit a))))] else [])"
  have m: "Marshal_ListPaperDocsArgs (Some a)
             = Inr (marshal_struct (map (\<lambda>m. member (fst m) (fst (snd m))) ?ms))"
    by (simp add: Marshal_ListPaperDocsArgs_def)
  have ok: "\<forall>m \<in> set ?ms. list_all htmlSafe (fst m) \<and> scans_as (fst (snd m)) (snd (snd m))"
    using plain_keys valid_plain [OF assms]
    by (auto simp add: scans_as_string scans_as_int)
  have v: "map (\<lambda>m. (fst m, snd (snd m))) ?ms =
             (if FilterBy a \<noteq> [] then [(''filter_by'', JString (FilterBy a))] else [])
             @ (if SortBy a \<noteq> [] then [(''sort_by'', JString (SortBy a))] else [])
             @ (if SortOrder a \<noteq> [] then [(''sort_order'', JString (SortOrder a))] else [])
             @ (if Limit a \<noteq> 0
                then [(''limit'', JNumber (FormatInt (sint (Limit a))))] else [])"
    by simp
  show ?thesis
    using scan_marshal_struct [OF ok] by (simp only: m v) blast
qed

lemma ListPaperDocsArgs_store:
  "store_ListPaperDocsArgs
     (JObject
        ((if FilterBy a \<noteq> [] then [(''filter_by'', JString (FilterBy a))] else [])
         @ (if SortBy a \<noteq> [] then [(''sort_by'', JString (SortBy a))] else [])
         @ (if SortOrder a \<noteq> [] then [(''sort_order'', JString (SortOrder a))] else [])
         @ (if Limit a \<noteq> 0 then [(''limit'', JNumber (FormatInt (sint (Limit a))))] else [])))
     zero_ListPaperDocsArgs = (a, None)"
  by (simp add: store_ListPaperDocsArgs_def store_struct_def key_filter_by key_sort_by
        key_sort_order key_limit store_filter_by store_sort_by store_sort_order store_limit
        zero_ListPaperDocsArgs_def saveError_def)

text \<open>
  C9. For every valid \<^verbatim>\<open>ListPaperDocsArgs\<close> value, \<^verbatim>\<open>json.Marshal\<close> gives a text, and
  decoding that text into a new \<^verbatim>\<open>ListPaperDocsArgs\<close>, with \<^verbatim>\<open>json.Unmarshal\<close> or with
  a \<^verbatim>\<open>json.Decoder\<close> on a body that echoes it, gives the original value field for field and
  no error; the fields that \<^verbatim>\<open>omitempty\<close> leaves out of the text (an empty selector, a
  zero limit) come back as the zero values they were.
\<close>

theorem ListPaperDocsArgs_round_trip:
  assumes "valid_ListPaperDocsArgs a"
  shows "\<exists>s. Marshal_ListPaperDocsArgs (Some a) = Inr s
           \<and> Unmarshal store_ListPaperDocsArgs s zero_ListPaperDocsArgs = (a, None)
           \<and> Decode store_ListPaperDocsArgs (complete s) zero_ListPaperDocsArgs = (a, None)"
proof -
  obtain s where s: "Marshal_ListPaperDocsArgs (Some a) = Inr s"
    and scan: "scan BeginValue [] s =
               ScanValue (JObject
                  ((if FilterBy a \<noteq> [] then [(''filter_by'', JString (FilterBy a))] else [])
                   @ (if SortBy a \<noteq> [] then [(''sort_by'', JString (SortBy a))] else [])
                   @ (if SortOrder a \<noteq> [] then [(''sort_order'', JString (SortOrder a))] else [])
                   @ (if Limit a \<noteq> 0
                      then [(''limit'', JNumber (FormatInt (sint (Limit a))))] else []))) []"
    using ListPaperDocsArgs_scan [OF assms] by blast
  have 1: "Unmarshal store_ListPaperDocsArgs s zero_ListPaperDocsArgs = (a, None)"
    by (simp only: Unmarshal_def checkValid_whole [OF scan] sum.case ListPaperDocsArgs_store)
  have 2: "Decode store_ListPaperDocsArgs (complete s) zero_ListPaperDocsArgs = (a, None)"
    by (simp only: Decode_def readValue_complete [OF scan] sum.case ListPaperDocsArgs_store)
  from s 1 2 show ?thesis by blast
qed

lemma valid_args_accessed_100: "valid_ListPaperDocsArgs args_accessed_100"
  by (simp add: valid_ListPaperDocsArgs_def args_accessed_100_def)

lemma FormatInt_100: "FormatInt 100 = ''100''"
  by code_simp

lemma Marshal_args_accessed_100:
  "Marshal_ListPaperDocsArgs (Some args_accessed_100) =
     Inr args_accessed_100_json"
  by (simp add: Marshal_ListPaperDocsArgs_def args_accessed_100_def
        ListPaperDocsFilterByAccessed_def ListPaperDocsSortOrderDesc_def
        args_accessed_100_json_def marshal_struct_def member_def appendString_def htmlSafe_def
        byte_def FormatInt_100)

theorem ListPaperDocsArgs_round_trip_witness:
  "valid_ListPaperDocsArgs args_accessed_100
   \<and> Unmarshal store_ListPaperDocsArgs
        args_accessed_100_json zero_ListPaperDocsArgs = (args_accessed_100, None)"
proof -
  obtain s where s: "Marshal_ListPaperDocsArgs (Some args_accessed_100) = Inr s"
    and u: "Unmarshal store_ListPaperDocsArgs s zero_ListPaperDocsArgs = (args_accessed_100, None)"
    using ListPaperDocsArgs_round_trip [OF valid_args_accessed_100] by blast
  from s have "s = args_accessed_100_json"
    by (simp only: Marshal_args_accessed_100 sum.inject)
  with u valid_args_accessed_100 show ?thesis
    by (simp only: simp_thms)
qed

end
